theory Spec2Isabelle
  imports Complex_Main
begin

section \<open>Python numbers\<close>

text \<open>
  The attendance percentages are Python \<^verbatim>\<open>float\<close>s, that is IEEE 754 binary64 values.
  A finite double is a rational number, so the type of doubles is \<^typ>\<open>rat\<close> and every
  floating-point operation is the exact operation followed by \<open>round_to_double\<close>, the
  rounding to the nearest double (ties to the even significand).  All doubles of this
  program lie between 0 and 100, far from overflow; gradual underflow is modelled by
  the bound \<open>- 1022\<close> on the exponent.
\<close>

type_synonym double = rat

definition round_half_even :: "rat \<Rightarrow> int" where
  "round_half_even q =
     (let f = \<lfloor>q\<rfloor>; r = q - of_int f
      in if r < 1 / 2 then f else if 1 / 2 < r then f + 1 else if even f then f else f + 1)"

definition pow2 :: "int \<Rightarrow> rat" where
  "pow2 e = (if 0 \<le> e then 2 ^ nat e else 1 / 2 ^ nat (- e))"

text \<open>Python's \<^verbatim>\<open>int.bit_length\<close> on a positive integer.\<close>

function bit_length :: "int \<Rightarrow> int" where
  "bit_length a = (if a \<le> 0 then 0 else 1 + bit_length (a div 2))"
  by pat_completeness auto
termination
  by (relation "measure nat") auto

declare bit_length.simps [simp del]

text \<open>For \<open>0 < q\<close>, \<open>ilog2 q\<close> is the exponent \<open>e\<close> with \<open>2\<^sup>e \<le> q < 2\<^sup>e\<^sup>+\<^sup>1\<close>.\<close>

definition ilog2 :: "rat \<Rightarrow> int" where
  "ilog2 q =
     (case quotient_of q of (a, b) \<Rightarrow>
        let d = bit_length a - bit_length b
        in if pow2 d \<le> q then d else d - 1)"

definition round_to_double :: "rat \<Rightarrow> double" where
  "round_to_double q =
     (if q = 0 then 0
      else let e = max (ilog2 \<bar>q\<bar>) (- 1022); u = pow2 (e - 52)
           in of_int (round_half_even (q / u)) * u)"

text \<open>
  \<^verbatim>\<open>a / b\<close> on two Python ints is the correctly rounded quotient; \<^verbatim>\<open>x * 100\<close> on a
  float converts the int exactly and rounds the product; \<^verbatim>\<open>round(x, n)\<close> on a float
  rounds the exact binary value of \<open>x\<close> to \<open>n\<close> decimals, ties to the even digit, and
  returns the double nearest to that decimal.
\<close>

definition int_truediv :: "int \<Rightarrow> int \<Rightarrow> double" where
  "int_truediv a b = round_to_double (of_int a / of_int b)"

definition float_mul :: "double \<Rightarrow> double \<Rightarrow> double" where
  "float_mul x y = round_to_double (x * y)"

definition py_round :: "double \<Rightarrow> nat \<Rightarrow> double" where
  "py_round x n = round_to_double (of_int (round_half_even (x * 10 ^ n)) / 10 ^ n)"

text \<open>\<^verbatim>\<open>x or 1\<close> on a Python int.\<close>

definition or_1 :: "nat \<Rightarrow> nat" where
  "or_1 n = (if n = 0 then 1 else n)"

section \<open>Data model (attendance/models.py, notifications/models.py)\<close>

text \<open>
  A model instance is a record; a foreign key is the referenced instance itself, so
  that \<^verbatim>\<open>attendance.student.parent\<close> is field access.  Queries compare instances by
  primary key, as Django does.  Timestamps are left out: no operation below reads one.
\<close>

datatype status = Present | Absent | Late | Excused

datatype verification_method = Manual | Face_recognition | Mobile_gps | Qr_scan

record Parent =
  parent_name :: string
  parent_email :: string
  parent_phone :: string

record Student =
  student_pk :: nat
  first_name :: string
  last_name :: string
  student_email :: string
  student_phone :: string
  parent :: "Parent option"
  student_is_active :: bool

definition full_name :: "Student \<Rightarrow> string" where
  "full_name s = first_name s @ '' '' @ last_name s"

record Course =
  course_pk :: nat
  code :: string
  course_name :: string
  students :: "Student list"

record AttendanceSession =
  session_pk :: nat
  course :: Course
  session_date :: string
  session_is_active :: bool

record Attendance =
  attendance_pk :: nat
  session :: AttendanceSession
  student :: Student
  status :: status
  verification_method :: verification_method
  marked_by :: "nat option"
  face_confidence :: "double option"
  location_lat :: "double option"
  location_lng :: "double option"
  attendance_notes :: string

section \<open>Aggregator\<close>

text \<open>
  \<^verbatim>\<open>Count('id', filter=Q(status=...))\<close> over a queryset counts the rows with that
  status.
\<close>

definition count_status :: "status \<Rightarrow> Attendance list \<Rightarrow> nat" where
  "count_status st rs = length (filter (\<lambda>r. status r = st) rs)"

record session_stats =
  total :: nat
  present :: nat
  absent :: nat
  late :: nat
  excused :: nat
  percentage :: double

text \<open>
  \<^verbatim>\<open>round((stats['present'] + stats['late']) / total * 100, 1)\<close>: the quotient of the two
  ints, then the product with 100, then the rounding.
\<close>

definition percent_of :: "nat \<Rightarrow> nat \<Rightarrow> double" where
  "percent_of k t = py_round (float_mul (int_truediv (int k) (int t)) 100) 1"

text \<open>\<^verbatim>\<open>InstantAttendanceUpdater.get_session_stats\<close>, on the records of the session.\<close>

definition aggregate_stats :: "Attendance list \<Rightarrow> session_stats" where
  "aggregate_stats rs =
     (let t = length rs;
          p = count_status Present rs;
          a = count_status Absent rs;
          l = count_status Late rs;
          e = count_status Excused rs;
          total' = or_1 t
      in \<lparr>total = t, present = p, absent = a, late = l, excused = e,
          percentage = percent_of (p + l) total'\<rparr>)"

text \<open>The statistics of \<^verbatim>\<open>session_detail\<close> (attendance/views.py), which tests the total.\<close>

definition session_detail_stats :: "Attendance list \<Rightarrow> session_stats" where
  "session_detail_stats rs =
     (let t = length rs;
          p = count_status Present rs;
          a = count_status Absent rs;
          l = count_status Late rs;
          e = count_status Excused rs
      in \<lparr>total = t, present = p, absent = a, late = l, excused = e,
          percentage = (if 0 < t then percent_of (p + l) t else 0)\<rparr>)"

text \<open>
  The formula of the specification, \<^verbatim>\<open>round(100 * k / max(total, 1), 1)\<close>, read as the
  Python expression it is written as: the product of the ints, their quotient, the
  rounding.
\<close>

definition spec_percentage :: "nat \<Rightarrow> nat \<Rightarrow> double" where
  "spec_percentage k t = py_round (int_truediv (100 * int k) (int (max t 1))) 1"

text \<open>
  \<^verbatim>\<open>StudentViewSet.attendance_stats\<close> (api/views.py).  The overall percentage counts
  present and late records; the percentage of a course is
  \<^verbatim>\<open>round(course_agg['present'] / course_total * 100, 1)\<close>.
\<close>

record course_stat =
  cs_course_code :: string
  cs_course_name :: string
  cs_total :: nat
  cs_present :: nat
  cs_absent :: nat
  cs_percentage :: double

record student_stats =
  total_classes :: nat
  present_count :: nat
  absent_count :: nat
  late_count :: nat
  attendance_percentage :: double
  course_wise_stats :: "course_stat list"

definition course_stat_of :: "Attendance list \<Rightarrow> Course \<Rightarrow> course_stat" where
  "course_stat_of records c =
     (let course_records = filter (\<lambda>r. course_pk (course (session r)) = course_pk c) records;
          t = length course_records;
          p = count_status Present course_records;
          a = count_status Absent course_records;
          course_total = or_1 t
      in \<lparr>cs_course_code = code c, cs_course_name = course_name c,
          cs_total = t, cs_present = p, cs_absent = a,
          cs_percentage = percent_of p course_total\<rparr>)"

section \<open>The database\<close>

datatype notification_type =
  Absence | Low_attendance | Attendance_marked | Class_reminder | General

datatype priority = Low | Medium | High | Urgent

datatype channel = Email | Sms | Push

datatype log_status = Pending | Sent | Delivered | Failed

text \<open>
  The message of a notification is one of the texts of notifications/utils.py,
  instantiated with the student and the session of the row; the low-attendance texts
  also print the percentage and the threshold.
\<close>

datatype message_text =
  Bulk_absence_text
  | Bulk_parent_absence_text
  | Single_absence_text
  | Single_parent_absence_text
  | Low_attendance_text double double
  | Parent_low_attendance_text double double

record Notification =
  notification_id :: nat
  notification_student :: Student
  notification_type :: notification_type
  priority :: priority
  title :: string
  message :: message_text
  attendance :: "nat option"
  is_read :: bool
  is_sent :: bool
  send_email :: bool
  send_sms :: bool
  send_push :: bool
  email_sent :: bool
  sms_sent :: bool
  push_sent :: bool

record ParentNotification =
  parent_notification_id :: nat
  pn_parent :: Parent
  pn_student :: Student
  pn_notification_type :: notification_type
  pn_title :: string
  pn_message :: message_text
  pn_email_sent :: bool
  pn_sms_sent :: bool

record NotificationLog =
  log_id :: nat
  log_notification :: "nat option"
  log_parent_notification :: "nat option"
  log_channel :: channel
  recipient :: string
  log_status :: log_status

text \<open>
  A table is the list of its rows.  The tables that the operations below write
  (attendance, notifications, logs) are in insertion order.  The student and the course
  table, and the \<open>students\<close> of a course, which no operation below writes, list
  their rows in the default ordering of the model, \<^verbatim>\<open>roll_number\<close> for students and
  \<^verbatim>\<open>code\<close> for courses: a queryset over them yields the rows in the order of the list.
  A queryset of Attendance rows is ordered by \<^verbatim>\<open>-marked_at\<close>, the time of insertion, so
  it yields the newest row first; the order matters only where a loop writes, in
  \<open>absent_records\<close>.  \<open>next_id\<close> is the source of fresh primary keys (the
  auto-increment of Attendance, the \<^verbatim>\<open>uuid4\<close> of the others).  The \<open>attendance\<close>
  field of a notification holds the primary key of its Attendance row: only the key is
  ever compared.
\<close>

record database =
  student_table :: "Student list"
  course_table :: "Course list"
  session_table :: "AttendanceSession list"
  attendance_table :: "Attendance list"
  notification_table :: "Notification list"
  parent_notification_table :: "ParentNotification list"
  notification_log_table :: "NotificationLog list"
  next_id :: nat

text \<open>
  The exceptions of the object-relational mapper.  \<^verbatim>\<open>MultipleObjectsReturned\<close> carries
  the number of rows that \<^verbatim>\<open>get\<close> fetched, at most 21.
\<close>

datatype error = Http404 | MultipleObjectsReturned nat | IntegrityError

text \<open>\<^verbatim>\<open>Attendance.objects.filter(session=session)\<close> and \<^verbatim>\<open>filter(student=student)\<close>.\<close>

definition session_records :: "database \<Rightarrow> AttendanceSession \<Rightarrow> Attendance list" where
  "session_records db s =
     filter (\<lambda>r. session_pk (session r) = session_pk s) (attendance_table db)"

definition student_records :: "database \<Rightarrow> Student \<Rightarrow> Attendance list" where
  "student_records db st =
     filter (\<lambda>r. student_pk (student r) = student_pk st) (attendance_table db)"

definition get_session_stats :: "database \<Rightarrow> AttendanceSession \<Rightarrow> session_stats" where
  "get_session_stats db s = aggregate_stats (session_records db s)"

text \<open>\<^verbatim>\<open>student.courses.all()\<close>: the courses whose enrolment holds the student.\<close>

definition student_courses :: "database \<Rightarrow> Student \<Rightarrow> Course list" where
  "student_courses db st =
     filter (\<lambda>c. student_pk st \<in> set (map student_pk (students c))) (course_table db)"

definition attendance_stats :: "database \<Rightarrow> Student \<Rightarrow> student_stats" where
  "attendance_stats db st =
     (let records = student_records db st;
          t = length records;
          p = count_status Present records;
          a = count_status Absent records;
          l = count_status Late records;
          total' = or_1 t
      in \<lparr>total_classes = t, present_count = p, absent_count = a, late_count = l,
          attendance_percentage = percent_of (p + l) total',
          course_wise_stats = map (course_stat_of records) (student_courses db st)\<rparr>)"

section \<open>Eligibility Checker and Attendance Ledger (api/views.py)\<close>

text \<open>
  \<^verbatim>\<open>get_object_or_404(Model, id=...)\<close>: the row with the key, \<^verbatim>\<open>Http404\<close> when there is
  none.
\<close>

definition get_object_or_404 :: "'a list \<Rightarrow> ('a \<Rightarrow> nat) \<Rightarrow> nat \<Rightarrow> error + 'a" where
  "get_object_or_404 table pk_of k =
     (case filter (\<lambda>x. pk_of x = k) table of
        [] \<Rightarrow> Inl Http404
      | [x] \<Rightarrow> Inr x
      | x # y # ys \<Rightarrow> Inl (MultipleObjectsReturned (min (length (x # y # ys)) 21)))"

text \<open>
  \<^verbatim>\<open>StudentViewSet.attendance_stats\<close> as an action on the key of the request:
  \<^verbatim>\<open>self.get_object()\<close> looks the key up in the queryset of the view set, the active
  students, and raises \<^verbatim>\<open>Http404\<close> for a missing or inactive student;
  \<open>attendance_stats\<close> above is the body of the action on the student found.
\<close>

definition get_object :: "database \<Rightarrow> nat \<Rightarrow> error + Student" where
  "get_object db k =
     get_object_or_404 (filter student_is_active (student_table db)) student_pk k"

definition attendance_stats_action :: "database \<Rightarrow> nat \<Rightarrow> error + student_stats" where
  "attendance_stats_action db k =
     (case get_object db k of
        Inl e \<Rightarrow> Inl e
      | Inr st \<Rightarrow> Inr (attendance_stats db st))"

text \<open>The rows of the pair (session, student), the key of \<^verbatim>\<open>unique_together\<close>.\<close>

definition pair_records :: "database \<Rightarrow> AttendanceSession \<Rightarrow> Student \<Rightarrow> Attendance list" where
  "pair_records db s st =
     filter (\<lambda>r. session_pk (session r) = session_pk s \<and> student_pk (student r) = student_pk st)
       (attendance_table db)"

text \<open>
  \<^verbatim>\<open>Attendance.objects.create(session=..., student=..., **fields)\<close>: the fields not
  given take the defaults of the model; the insertion fails on a second row for the
  pair (\<^verbatim>\<open>unique_together = ['session', 'student']\<close>).
\<close>

definition new_attendance :: "nat \<Rightarrow> AttendanceSession \<Rightarrow> Student \<Rightarrow> Attendance" where
  "new_attendance k s st =
     \<lparr>attendance_pk = k, session = s, student = st, status = Absent,
      verification_method = Manual, marked_by = None, face_confidence = None,
      location_lat = None, location_lng = None, attendance_notes = []\<rparr>"

definition objects_create ::
  "database \<Rightarrow> AttendanceSession \<Rightarrow> Student \<Rightarrow> (Attendance \<Rightarrow> Attendance)
     \<Rightarrow> error + (Attendance \<times> database)" where
  "objects_create db s st kwargs =
     (if pair_records db s st \<noteq> [] then Inl IntegrityError
      else let obj = kwargs (new_attendance (next_id db) s st)
           in Inr (obj, db\<lparr>attendance_table := attendance_table db @ [obj],
                            next_id := Suc (next_id db)\<rparr>))"

text \<open>\<^verbatim>\<open>obj.save()\<close> on a fetched row: the row with the key of \<open>obj\<close> is overwritten.\<close>

definition save_attendance :: "database \<Rightarrow> Attendance \<Rightarrow> database" where
  "save_attendance db obj =
     db\<lparr>attendance_table :=
          map (\<lambda>r. if attendance_pk r = attendance_pk obj then obj else r) (attendance_table db)\<rparr>"

text \<open>
  \<^verbatim>\<open>Attendance.objects.update_or_create(session=..., student=..., defaults=...)\<close>:
  \<^verbatim>\<open>get\<close> the row of the pair; create it when there is none, otherwise set the
  defaults on it and save.  \<open>defaults\<close> sets the fields of the \<^verbatim>\<open>defaults\<close> dict.
\<close>

definition update_or_create ::
  "database \<Rightarrow> AttendanceSession \<Rightarrow> Student \<Rightarrow> (Attendance \<Rightarrow> Attendance)
     \<Rightarrow> error + (Attendance \<times> bool \<times> database)" where
  "update_or_create db s st defaults =
     (case pair_records db s st of
        [] \<Rightarrow>
          (case objects_create db s st defaults of
             Inl e \<Rightarrow> Inl e
           | Inr (obj, db') \<Rightarrow> Inr (obj, True, db'))
      | [r] \<Rightarrow> (let obj = defaults r in Inr (obj, False, save_attendance db obj))
      | r # r' # rs \<Rightarrow> Inl (MultipleObjectsReturned (min (length (r # r' # rs)) 21)))"

section \<open>Notification Dispatcher (notifications/utils.py)\<close>

text \<open>The decimal digits of a key, for \<^verbatim>\<open>f"device_{notification.student.id}"\<close>.\<close>

function str_nat :: "nat \<Rightarrow> string" where
  "str_nat n =
     (if n < 10 then [char_of (48 + n)]
      else str_nat (n div 10) @ [char_of (48 + n mod 10)])"
  by pat_completeness auto
termination
  by (relation "measure id") auto

declare str_nat.simps [simp del]

definition log_create ::
  "database \<Rightarrow> nat option \<Rightarrow> nat option \<Rightarrow> channel \<Rightarrow> string \<Rightarrow> database" where
  "log_create db n pn ch rcpt =
     db\<lparr>notification_log_table := notification_log_table db @
          [\<lparr>log_id = next_id db, log_notification = n, log_parent_notification = pn,
            log_channel = ch, recipient = rcpt, log_status = Sent\<rparr>],
        next_id := Suc (next_id db)\<rparr>"

definition notification_create :: "database \<Rightarrow> (nat \<Rightarrow> Notification) \<Rightarrow> Notification \<times> database" where
  "notification_create db mk =
     (let n = mk (next_id db)
      in (n, db\<lparr>notification_table := notification_table db @ [n],
                 next_id := Suc (next_id db)\<rparr>))"

definition notification_save :: "database \<Rightarrow> Notification \<Rightarrow> database" where
  "notification_save db n =
     db\<lparr>notification_table :=
          map (\<lambda>x. if notification_id x = notification_id n then n else x)
            (notification_table db)\<rparr>"

text \<open>\<^verbatim>\<open>_simulate_send_notification\<close>.\<close>

definition simulate_send_notification :: "database \<Rightarrow> Notification \<Rightarrow> Notification \<times> database" where
  "simulate_send_notification db n =
     (let n0 = n\<lparr>is_sent := True\<rparr>;
          st = notification_student n;
          (n1, db1) =
            (if send_email n0
             then (n0\<lparr>email_sent := True\<rparr>,
                   log_create db (Some (notification_id n)) None Email (student_email st))
             else (n0, db));
          (n2, db2) =
            (if send_sms n1 \<and> student_phone st \<noteq> []
             then (n1\<lparr>sms_sent := True\<rparr>,
                   log_create db1 (Some (notification_id n)) None Sms (student_phone st))
             else (n1, db1));
          (n3, db3) =
            (if send_push n2
             then (n2\<lparr>push_sent := True\<rparr>,
                   log_create db2 (Some (notification_id n)) None Push
                     (''device_'' @ str_nat (student_pk st)))
             else (n2, db2))
      in (n3, notification_save db3 n3))"

definition parent_notification_create ::
  "database \<Rightarrow> (nat \<Rightarrow> ParentNotification) \<Rightarrow> ParentNotification \<times> database" where
  "parent_notification_create db mk =
     (let n = mk (next_id db)
      in (n, db\<lparr>parent_notification_table := parent_notification_table db @ [n],
                 next_id := Suc (next_id db)\<rparr>))"

definition parent_notification_save :: "database \<Rightarrow> ParentNotification \<Rightarrow> database" where
  "parent_notification_save db n =
     db\<lparr>parent_notification_table :=
          map (\<lambda>x. if parent_notification_id x = parent_notification_id n then n else x)
            (parent_notification_table db)\<rparr>"

text \<open>\<^verbatim>\<open>_simulate_send_parent_notification\<close>.\<close>

definition simulate_send_parent_notification :: "database \<Rightarrow> ParentNotification \<Rightarrow> database" where
  "simulate_send_parent_notification db pn =
     (let p = pn_parent pn;
          db1 = log_create db None (Some (parent_notification_id pn)) Email (parent_email p);
          pn1 = pn\<lparr>pn_email_sent := True\<rparr>;
          (pn2, db2) =
            (if parent_phone p \<noteq> []
             then (pn1\<lparr>pn_sms_sent := True\<rparr>,
                   log_create db1 None (Some (parent_notification_id pn)) Sms (parent_phone p))
             else (pn1, db1))
      in parent_notification_save db2 pn2)"

text \<open>
  The absence notification of a record and of its parent; \<open>txt\<close> and \<open>ptitle\<close> are
  the message and the parent title of the calling path.
\<close>

definition absence_notification ::
  "Attendance \<Rightarrow> message_text \<Rightarrow> nat \<Rightarrow> Notification" where
  "absence_notification record txt k =
     \<lparr>notification_id = k, notification_student = student record,
      notification_type = Absence, priority = High,
      title = ''Absence Alert: '' @ code (course (session record)),
      message = txt, attendance = Some (attendance_pk record),
      is_read = False, is_sent = False,
      send_email = True, send_sms = False, send_push = True,
      email_sent = False, sms_sent = False, push_sent = False\<rparr>"

definition parent_absence_notification ::
  "Parent \<Rightarrow> Student \<Rightarrow> string \<Rightarrow> message_text \<Rightarrow> nat \<Rightarrow> ParentNotification" where
  "parent_absence_notification p st ptitle txt k =
     \<lparr>parent_notification_id = k, pn_parent = p, pn_student = st,
      pn_notification_type = Absence, pn_title = ptitle, pn_message = txt,
      pn_email_sent = False, pn_sms_sent = False\<rparr>"

text \<open>\<^verbatim>\<open>Notification.objects.filter(student=..., attendance=..., notification_type='absence')\<close>.\<close>

definition existing_absence_notifications :: "database \<Rightarrow> Attendance \<Rightarrow> Notification list" where
  "existing_absence_notifications db a =
     filter (\<lambda>n. student_pk (notification_student n) = student_pk (student a)
                 \<and> attendance n = Some (attendance_pk a)
                 \<and> notification_type n = Absence)
       (notification_table db)"

text \<open>\<^verbatim>\<open>send_single_absentee_notification\<close>: the notification created, or \<^verbatim>\<open>None\<close>.\<close>

definition send_single_absentee_notification ::
  "database \<Rightarrow> Attendance \<Rightarrow> Notification option \<times> database" where
  "send_single_absentee_notification db a =
     (if status a \<noteq> Absent then (None, db)
      else if existing_absence_notifications db a \<noteq> [] then (None, db)
      else
        let st = student a;
            (n, db1) = notification_create db (absence_notification a Single_absence_text);
            (n', db2) = simulate_send_notification db1 n;
            db3 =
              (case parent st of
                 None \<Rightarrow> db2
               | Some p \<Rightarrow>
                   let (pn, db') = parent_notification_create db2
                         (parent_absence_notification p st (''Child Absence: '' @ full_name st)
                            Single_parent_absence_text)
                   in simulate_send_parent_notification db' pn)
        in (Some n', db3))"

text \<open>\<^verbatim>\<open>send_absentee_notifications\<close>: the loop over the absent records of the session.\<close>

fun send_absentee_loop :: "database \<Rightarrow> nat \<Rightarrow> Attendance list \<Rightarrow> nat \<times> database" where
  "send_absentee_loop db notifications_created [] = (notifications_created, db)"
| "send_absentee_loop db notifications_created (record # records) =
     (let st = student record;
          (n, db1) = notification_create db (absence_notification record Bulk_absence_text);
          (n', db2) = simulate_send_notification db1 n;
          db3 =
            (case parent st of
               None \<Rightarrow> db2
             | Some p \<Rightarrow>
                 let (pn, db') = parent_notification_create db2
                       (parent_absence_notification p st
                          (''Child Absence Alert: '' @ full_name st) Bulk_parent_absence_text)
                 in simulate_send_parent_notification db' pn)
      in send_absentee_loop db3 (notifications_created + 1) records)"

text \<open>
  \<^verbatim>\<open>Attendance.objects.filter(session=session, status='absent')\<close>, in the order in which
  the loop reads it: the newest row first.
\<close>

definition absent_records :: "database \<Rightarrow> AttendanceSession \<Rightarrow> Attendance list" where
  "absent_records db s =
     filter (\<lambda>r. session_pk (session r) = session_pk s \<and> status r = Absent)
       (rev (attendance_table db))"

definition send_absentee_notifications :: "database \<Rightarrow> AttendanceSession \<Rightarrow> nat \<times> database" where
  "send_absentee_notifications db s = send_absentee_loop db 0 (absent_records db s)"

text \<open>
  The bulk path as the specification words it: the single-record path, once for each
  absent record of the session.
\<close>

fun on_mark_each :: "database \<Rightarrow> Attendance list \<Rightarrow> database" where
  "on_mark_each db [] = db"
| "on_mark_each db (record # records) =
     on_mark_each (snd (send_single_absentee_notification db record)) records"

definition spec_on_bulk_mark :: "database \<Rightarrow> AttendanceSession \<Rightarrow> database" where
  "spec_on_bulk_mark db s = on_mark_each db (absent_records db s)"

text \<open>
  \<^verbatim>\<open>mark_attendance\<close> (api/views.py), on the validated data of the request.  The
  serializer has filled in the default of \<^verbatim>\<open>verification_method\<close>; the optional
  fields are \<^verbatim>\<open>None\<close> when absent.
\<close>

record mark_data =
  data_session_id :: nat
  data_student_id :: nat
  data_status :: status
  data_verification_method :: verification_method
  data_location_lat :: "double option"
  data_location_lng :: "double option"
  data_face_confidence :: "double option"
  data_notes :: "string option"

datatype response =
  Response_success nat bool
  | Response_error nat string

text \<open>
  \<^verbatim>\<open>str(e)\<close> for an exception raised on the model named \<open>m\<close>.  The text of an
  \<^verbatim>\<open>IntegrityError\<close> is the text of the database driver, of which this is the beginning.
\<close>

definition str_error :: "string \<Rightarrow> error \<Rightarrow> string" where
  "str_error m e =
     (case e of
        Http404 \<Rightarrow> ''No '' @ m @ '' matches the given query.''
      | MultipleObjectsReturned n \<Rightarrow>
          ''get() returned more than one '' @ m @ '' -- it returned ''
          @ (if n < 21 then str_nat n else ''more than 20'') @ ''!''
      | IntegrityError \<Rightarrow> ''duplicate key value violates unique constraint'')"

definition mark_defaults :: "nat \<Rightarrow> mark_data \<Rightarrow> Attendance \<Rightarrow> Attendance" where
  "mark_defaults user d r =
     r\<lparr>status := data_status d,
       verification_method := data_verification_method d,
       marked_by := Some user,
       location_lat := data_location_lat d,
       location_lng := data_location_lng d,
       face_confidence := data_face_confidence d,
       attendance_notes := (case data_notes d of None \<Rightarrow> [] | Some t \<Rightarrow> t)\<rparr>"

definition mark_attendance :: "database \<Rightarrow> nat \<Rightarrow> mark_data \<Rightarrow> response \<times> database" where
  "mark_attendance db user d =
     (case get_object_or_404 (session_table db) session_pk (data_session_id d) of
        Inl e \<Rightarrow> (Response_error 500 (str_error ''AttendanceSession'' e), db)
      | Inr s \<Rightarrow>
     (case get_object_or_404 (student_table db) student_pk (data_student_id d) of
        Inl e \<Rightarrow> (Response_error 500 (str_error ''Student'' e), db)
      | Inr st \<Rightarrow>
          if \<not> session_is_active s
          then (Response_error 400 ''This attendance session is not active'', db)
          else if student_pk st \<notin> set (map student_pk (students (course s)))
          then (Response_error 403 ''Student is not enrolled in this course'', db)
          else
            (case update_or_create db s st (mark_defaults user d) of
               Inl e \<Rightarrow> (Response_error 500 (str_error ''Attendance'' e), db)
             | Inr (a, created, db1) \<Rightarrow>
                 let db2 = (if data_status d = Absent
                            then snd (send_single_absentee_notification db1 a) else db1)
                 in (Response_success (attendance_pk a) created, db2))))"

section \<open>Absentee Resolver (face\_recognition/ai\_engine.py)\<close>

text \<open>\<^verbatim>\<open>session.course.students.filter(is_active=True)\<close>.\<close>

definition enrolled_active :: "AttendanceSession \<Rightarrow> Student list" where
  "enrolled_active s = filter student_is_active (students (course s))"

text \<open>
  \<^verbatim>\<open>AutomatedAbsenteeDetector.auto_mark_absentees\<close>: \<open>unmarked\<close> is the queryset
  \<^verbatim>\<open>enrolled.exclude(id__in=marked)\<close>, the loop creates one row for each of its students.
\<close>

definition unmarked :: "database \<Rightarrow> AttendanceSession \<Rightarrow> Student list" where
  "unmarked db s =
     (let marked = map (\<lambda>r. student_pk (student r)) (session_records db s)
      in filter (\<lambda>st. student_pk st \<notin> set marked) (enrolled_active s))"

definition auto_absent_fields :: "nat option \<Rightarrow> Attendance \<Rightarrow> Attendance" where
  "auto_absent_fields user r =
     r\<lparr>status := Absent, verification_method := Manual, marked_by := user,
       attendance_notes := ''Auto-marked as absent''\<rparr>"

fun auto_mark_loop ::
  "database \<Rightarrow> AttendanceSession \<Rightarrow> nat option \<Rightarrow> nat \<Rightarrow> Student list
     \<Rightarrow> error + (nat \<times> database)" where
  "auto_mark_loop db s user count [] = Inr (count, db)"
| "auto_mark_loop db s user count (st # sts) =
     (case objects_create db s st (auto_absent_fields user) of
        Inl e \<Rightarrow> Inl e
      | Inr (obj, db') \<Rightarrow> auto_mark_loop db' s user (count + 1) sts)"

definition auto_mark_absentees ::
  "database \<Rightarrow> AttendanceSession \<Rightarrow> nat option \<Rightarrow> error + (nat \<times> database)" where
  "auto_mark_absentees db s user = auto_mark_loop db s user 0 (unmarked db s)"

text \<open>
  \<^verbatim>\<open>AutomatedAbsenteeDetector.detect_session_absentees\<close>.  \<^verbatim>\<open>enrolled_students\<close> is a
  Python set of Student instances; \<^verbatim>\<open>present_students\<close> is the set of what
  \<^verbatim>\<open>values_list('student', flat=True)\<close> yields, the integer keys of the students.  The
  elements of both sets are compared with \<^verbatim>\<open>==\<close>: two model instances are equal when
  their keys are, two ints when they are the same number, and a model instance never
  equals an int (\<^verbatim>\<open>Model.__eq__\<close> answers \<^verbatim>\<open>NotImplemented\<close> for a non-model).
\<close>

datatype py_value = Instance Student | Int_value nat

fun py_eq :: "py_value \<Rightarrow> py_value \<Rightarrow> bool" where
  "py_eq (Instance a) (Instance b) = (student_pk a = student_pk b)"
| "py_eq (Int_value i) (Int_value j) = (i = j)"
| "py_eq _ _ = False"

text \<open>\<^verbatim>\<open>set(iterable)\<close> keeps the first of equal elements; \<^verbatim>\<open>a - b\<close> on sets.\<close>

fun py_set :: "py_value list \<Rightarrow> py_value list" where
  "py_set [] = []"
| "py_set (x # xs) = x # filter (\<lambda>y. \<not> py_eq y x) (py_set xs)"

definition py_set_difference :: "py_value list \<Rightarrow> py_value list \<Rightarrow> py_value list" where
  "py_set_difference a b = filter (\<lambda>x. filter (py_eq x) b = []) a"

definition detect_session_absentees :: "database \<Rightarrow> AttendanceSession \<Rightarrow> py_value list" where
  "detect_session_absentees db s =
     (let enrolled_students = py_set (map Instance (enrolled_active s));
          present_students = py_set
            (map (\<lambda>r. Int_value (student_pk (student r)))
               (filter (\<lambda>r. status r = Present \<or> status r = Late) (session_records db s)));
          absent_students = py_set_difference enrolled_students present_students
      in absent_students)"

text \<open>
  What the docstring of \<^verbatim>\<open>detect_session_absentees\<close> and the specification describe:
  the active enrolled students with no present or late record in the session.
\<close>

definition spec_session_absentees :: "database \<Rightarrow> AttendanceSession \<Rightarrow> Student list" where
  "spec_session_absentees db s =
     filter (\<lambda>st. filter (\<lambda>r. student_pk (student r) = student_pk st
                               \<and> (status r = Present \<or> status r = Late))
                    (session_records db s) = [])
       (enrolled_active s)"

text \<open>
  \<^verbatim>\<open>AutomatedAbsenteeDetector.check_low_attendance_students\<close>; \<open>threshold\<close> is
  \<^verbatim>\<open>self.attendance_threshold\<close>, 75 unless reconfigured.  The percentage is the float
  \<^verbatim>\<open>(stats['present'] / stats['total']) * 100\<close>, not rounded.
\<close>

definition attendance_threshold :: double where
  "attendance_threshold = 75"

definition low_students :: "database \<Rightarrow> Course option \<Rightarrow> Student list" where
  "low_students db c =
     (let sts = filter student_is_active (student_table db)
      in case c of
           None \<Rightarrow> sts
         | Some crs \<Rightarrow> filter (\<lambda>st. student_pk st \<in> set (map student_pk (students crs))) sts)"

definition low_records :: "database \<Rightarrow> Course option \<Rightarrow> Student \<Rightarrow> Attendance list" where
  "low_records db c st =
     (let records = student_records db st
      in case c of
           None \<Rightarrow> records
         | Some crs \<Rightarrow> filter (\<lambda>r. course_pk (course (session r)) = course_pk crs) records)"

definition present_or_late :: "Attendance list \<Rightarrow> nat" where
  "present_or_late rs = length (filter (\<lambda>r. status r = Present \<or> status r = Late) rs)"

definition raw_percentage :: "nat \<Rightarrow> nat \<Rightarrow> double" where
  "raw_percentage p t = float_mul (int_truediv (int p) (int t)) 100"

fun low_attendance_loop ::
  "database \<Rightarrow> Course option \<Rightarrow> double \<Rightarrow> (Student \<times> double) list \<Rightarrow> Student list
     \<Rightarrow> (Student \<times> double) list" where
  "low_attendance_loop db c threshold low_attendance [] = low_attendance"
| "low_attendance_loop db c threshold low_attendance (st # sts) =
     (let records = low_records db c st;
          t = length records;
          p = present_or_late records
      in low_attendance_loop db c threshold
           (if 0 < t
            then (let percentage = raw_percentage p t
                  in if percentage < threshold then low_attendance @ [(st, percentage)]
                     else low_attendance)
            else low_attendance)
           sts)"

definition check_low_attendance_students ::
  "database \<Rightarrow> double \<Rightarrow> Course option \<Rightarrow> (Student \<times> double) list" where
  "check_low_attendance_students db threshold c =
     low_attendance_loop db c threshold [] (low_students db c)"

text \<open>\<^verbatim>\<open>send_low_attendance_warning\<close> (notifications/utils.py).\<close>

definition low_attendance_notification ::
  "Student \<Rightarrow> double \<Rightarrow> double \<Rightarrow> nat \<Rightarrow> Notification" where
  "low_attendance_notification st attendance_pct threshold k =
     \<lparr>notification_id = k, notification_student = st,
      notification_type = Low_attendance, priority = Urgent,
      title = ''Low Attendance Warning'',
      message = Low_attendance_text attendance_pct threshold, attendance = None,
      is_read = False, is_sent = False,
      send_email = True, send_sms = True, send_push = True,
      email_sent = False, sms_sent = False, push_sent = False\<rparr>"

definition send_low_attendance_warning ::
  "database \<Rightarrow> Student \<Rightarrow> double \<Rightarrow> double \<Rightarrow> Notification option \<times> database" where
  "send_low_attendance_warning db st attendance_pct threshold =
     (if threshold \<le> attendance_pct then (None, db)
      else
        let (n, db1) = notification_create db
              (low_attendance_notification st attendance_pct threshold);
            (n', db2) = simulate_send_notification db1 n;
            db3 =
              (case parent st of
                 None \<Rightarrow> db2
               | Some p \<Rightarrow>
                   let (pn, db') = parent_notification_create db2
                         (\<lambda>k. \<lparr>parent_notification_id = k, pn_parent = p, pn_student = st,
                               pn_notification_type = Low_attendance,
                               pn_title = ''Low Attendance Warning: '' @ full_name st,
                               pn_message =
                                 Parent_low_attendance_text attendance_pct threshold,
                               pn_email_sent = False, pn_sms_sent = False\<rparr>)
                   in simulate_send_parent_notification db' pn)
        in (Some n', db3))"

text \<open>
  \<^verbatim>\<open>check_and_send_low_attendance_warnings\<close>: the sweep over the active students, with
  the threshold 75.
\<close>

fun low_attendance_sweep ::
  "database \<Rightarrow> double \<Rightarrow> nat \<Rightarrow> Student list \<Rightarrow> nat \<times> database" where
  "low_attendance_sweep db threshold warnings_sent [] = (warnings_sent, db)"
| "low_attendance_sweep db threshold warnings_sent (st # sts) =
     (let records = student_records db st;
          t = length records;
          p = present_or_late records
      in if 0 < t
         then (let percentage = raw_percentage p t
               in if percentage < threshold
                  then low_attendance_sweep
                         (snd (send_low_attendance_warning db st percentage threshold))
                         threshold (warnings_sent + 1) sts
                  else low_attendance_sweep db threshold warnings_sent sts)
         else low_attendance_sweep db threshold warnings_sent sts)"

definition check_and_send_low_attendance_warnings :: "database \<Rightarrow> nat \<times> database" where
  "check_and_send_low_attendance_warnings db =
     (let threshold = 75;
          sts = filter student_is_active (student_table db)
      in low_attendance_sweep db threshold 0 sts)"

section \<open>Sample data\<close>


definition sample_student :: "nat \<Rightarrow> Student" where
  "sample_student i =
     \<lparr>student_pk = i, first_name = ''Aarav'', last_name = ''Sharma'',
      student_email = ''student@example.com'', student_phone = [],
      parent = None, student_is_active = True\<rparr>"

definition sample_course :: "Student list \<Rightarrow> Course" where
  "sample_course sts =
     \<lparr>course_pk = 1, code = ''CS101'', course_name = ''Programming'', students = sts\<rparr>"

definition sample_session :: "Student list \<Rightarrow> bool \<Rightarrow> AttendanceSession" where
  "sample_session sts act =
     \<lparr>session_pk = 1, course = sample_course sts, session_date = ''2024-01-15'',
      session_is_active = act\<rparr>"

definition sample_attendance :: "status \<Rightarrow> nat \<Rightarrow> Attendance" where
  "sample_attendance st i =
     \<lparr>attendance_pk = i, session = sample_session [] True, student = sample_student i,
      status = st, verification_method = Manual, marked_by = None,
      face_confidence = None, location_lat = None, location_lng = None,
      attendance_notes = []\<rparr>"

text \<open>\<open>n\<close> records of status \<open>st\<close>, for the students \<open>i, \<dots>, i + n - 1\<close>.\<close>

definition sample_records :: "status \<Rightarrow> nat \<Rightarrow> nat \<Rightarrow> Attendance list" where
  "sample_records st i n = map (sample_attendance st) [i..<i + n]"

text \<open>
  The history of one student: \<open>n\<close> records of status \<open>st\<close> in the sessions
  \<open>i, \<dots>, i + n - 1\<close> of the course, and a database holding such a history.
\<close>

definition sample_session_at :: "nat \<Rightarrow> AttendanceSession" where
  "sample_session_at k =
     \<lparr>session_pk = k, course = sample_course [sample_student 7],
      session_date = ''2024-01-15'', session_is_active = True\<rparr>"

definition sample_history :: "status \<Rightarrow> nat \<Rightarrow> nat \<Rightarrow> Attendance list" where
  "sample_history st i n =
     map (\<lambda>k. \<lparr>attendance_pk = k, session = sample_session_at k, student = sample_student 7,
               status = st, verification_method = Manual, marked_by = None,
               face_confidence = None, location_lat = None, location_lng = None,
               attendance_notes = []\<rparr>)
       [i..<i + n]"

definition sample_database :: "Attendance list \<Rightarrow> database" where
  "sample_database rs =
     \<lparr>student_table = [sample_student 7],
      course_table = [sample_course [sample_student 7]],
      session_table = [],
      attendance_table = rs,
      notification_table = [],
      parent_notification_table = [],
      notification_log_table = [],
      next_id = 1000\<rparr>"

text \<open>
  A session with one absent record, after a first run of the bulk notification path:
  the record has its absence notification.
\<close>

definition notified_database :: database where
  "notified_database =
     snd (send_absentee_notifications (sample_database (sample_history Absent 3 1))
            (sample_session_at 3))"

text \<open>The notification of an absent record once \<^verbatim>\<open>_simulate_send_notification\<close> has run.\<close>

definition sent_notification :: "Attendance \<Rightarrow> message_text \<Rightarrow> nat \<Rightarrow> Notification" where
  "sent_notification a txt k =
     (absence_notification a txt k)\<lparr>is_sent := True, email_sent := True, push_sent := True\<rparr>"


text \<open>
  A database with the session \<open>s\<close>, the students 7 and 8 and the attendance rows
  \<open>rs\<close>; the validated data of a request that marks a student in session 3.
\<close>

definition campus_database :: "AttendanceSession \<Rightarrow> Attendance list \<Rightarrow> database" where
  "campus_database s rs =
     \<lparr>student_table = [sample_student 7, sample_student 8],
      course_table = [course s],
      session_table = [s],
      attendance_table = rs,
      notification_table = [],
      parent_notification_table = [],
      notification_log_table = [],
      next_id = 1000\<rparr>"

definition sample_mark :: "nat \<Rightarrow> status \<Rightarrow> mark_data" where
  "sample_mark sid st =
     \<lparr>data_session_id = 3, data_student_id = sid, data_status = st,
      data_verification_method = Mobile_gps, data_location_lat = None,
      data_location_lng = None, data_face_confidence = None, data_notes = None\<rparr>"

text \<open>The rows of a pair (session, student) are the rows that satisfy \<open>in_pair\<close>.\<close>

definition in_pair :: "AttendanceSession \<Rightarrow> Student \<Rightarrow> Attendance \<Rightarrow> bool" where
  "in_pair s st r \<longleftrightarrow>
     session_pk (session r) = session_pk s \<and> student_pk (student r) = student_pk st"

text \<open>
  The rows that \<^verbatim>\<open>auto_mark_absentees\<close> creates for the students \<open>sts\<close>, with the keys
  \<open>k, k + 1, \<dots>\<close>.
\<close>

definition auto_absent_rows ::
  "AttendanceSession \<Rightarrow> nat option \<Rightarrow> nat \<Rightarrow> Student list \<Rightarrow> Attendance list" where
  "auto_absent_rows s user k sts =
     map (\<lambda>(i, st).
            \<lparr>attendance_pk = i, session = s, student = st, status = Absent,
             verification_method = Manual, marked_by = user, face_confidence = None,
             location_lat = None, location_lng = None,
             attendance_notes = ''Auto-marked as absent''\<rparr>)
       (zip [k..<k + length sts] sts)"

text \<open>
  The scenario of the specification: an active session of a course with the students
  7 and 8, where student 7 is marked present and student 8 is not marked; the course
  also has the student 9, who is not marked and not active.
\<close>

definition inactive_student :: "nat \<Rightarrow> Student" where
  "inactive_student i = (sample_student i)\<lparr>student_is_active := False\<rparr>"

definition scenario_session :: AttendanceSession where
  "scenario_session =
     sample_session [sample_student 7, sample_student 8, inactive_student 9] True"

definition scenario_database :: database where
  "scenario_database =
     campus_database scenario_session
       [(sample_attendance Present 7)\<lparr>session := scenario_session\<rparr>]"

text \<open>
  The percentage of a student in \<^verbatim>\<open>check_low_attendance_students\<close>: the float
  \<^verbatim>\<open>(stats['present'] / stats['total']) * 100\<close> over the records considered.
\<close>

definition low_percentage :: "database \<Rightarrow> Course option \<Rightarrow> Student \<Rightarrow> double" where
  "low_percentage db c st =
     raw_percentage (present_or_late (low_records db c st)) (length (low_records db c st))"

text \<open>
  \<open>n\<close> records of status \<open>st\<close> of the student \<open>stu\<close>, in the sessions
  \<open>i, \<dots>, i + n - 1\<close> of the course \<open>crs\<close>.
\<close>

definition course_history ::
  "Student \<Rightarrow> Course \<Rightarrow> status \<Rightarrow> nat \<Rightarrow> nat \<Rightarrow> Attendance list" where
  "course_history stu crs st i n =
     map (\<lambda>k. \<lparr>attendance_pk = k,
               session = \<lparr>session_pk = k, course = crs, session_date = ''2024-01-15'',
                          session_is_active = True\<rparr>,
               student = stu, status = st, verification_method = Manual, marked_by = None,
               face_confidence = None, location_lat = None, location_lng = None,
               attendance_notes = []\<rparr>)
       [i..<i + n]"

text \<open>
  Two courses with the students 7, 8 and 9.  Student 7 has one present and three absent
  records in the first course and eight present records in the second; student 8 has no
  record; student 9, who is not active, has two absent records in the first course.
\<close>

definition first_course :: Course where
  "first_course =
     \<lparr>course_pk = 1, code = ''CS101'', course_name = ''Programming'',
      students = [sample_student 7, sample_student 8, inactive_student 9]\<rparr>"

definition second_course :: Course where
  "second_course =
     \<lparr>course_pk = 2, code = ''CS102'', course_name = ''Algorithms'',
      students = [sample_student 7]\<rparr>"

definition history_database :: database where
  "history_database =
     \<lparr>student_table = [sample_student 7, sample_student 8, inactive_student 9],
      course_table = [first_course, second_course],
      session_table = [],
      attendance_table =
        course_history (sample_student 7) first_course Present 0 1
        @ course_history (sample_student 7) first_course Absent 1 3
        @ course_history (sample_student 7) second_course Present 4 8
        @ course_history (inactive_student 9) first_course Absent 12 2,
      notification_table = [],
      parent_notification_table = [],
      notification_log_table = [],
      next_id = 1000\<rparr>"

text \<open>Student 7 with 23 present and 57 absent records.\<close>

definition tie_database :: database where
  "tie_database =
     campus_database (sample_session_at 3)
       (sample_history Present 0 23 @ sample_history Absent 23 57)"

section \<open>Properties of the Python numbers\<close>

lemma percent_of_raw: "percent_of k t = py_round (raw_percentage k t) 1"
  by (simp add: percent_of_def raw_percentage_def)

lemma pow2_powi: "pow2 e = 2 powi e"
  by (simp add: pow2_def power_int_def power_inverse inverse_eq_divide power_one_over)

lemma pow2_pos: "0 < pow2 e"
  by (simp add: pow2_def)

lemma pow2_add: "pow2 (a + b) = pow2 a * pow2 b"
  by (simp add: pow2_powi power_int_add)

lemma pow2_mono: "a \<le> b \<Longrightarrow> pow2 a \<le> pow2 b"
  by (simp add: pow2_powi power_int_increasing)

lemma pow2_less_imp: "pow2 a < pow2 b \<Longrightarrow> a < b"
  using pow2_mono [of b a] by (rule_tac ccontr) simp

lemma pow2_Suc: "pow2 (e + 1) = 2 * pow2 e"
  using pow2_add [of e 1] by (simp add: pow2_def)

lemma bit_length_bounds:
  "0 < a \<Longrightarrow> 0 < bit_length a \<and> 2 ^ nat (bit_length a - 1) \<le> a \<and> a < 2 ^ nat (bit_length a)"
proof (induction a rule: bit_length.induct)
  case (1 a)
  show ?case
  proof (cases "a div 2 = 0")
    case True
    with "1.prems" have "a = 1"
      by presburger
    then show ?thesis
      by (simp add: bit_length.simps [of 1] bit_length.simps [of 0])
  next
    case False
    with "1.prems" have pos: "0 < a div 2"
      by presburger
    from "1.prems" have step: "bit_length a = 1 + bit_length (a div 2)"
      by (simp add: bit_length.simps [of a])
    from "1.IH" "1.prems" pos
    have b: "0 < bit_length (a div 2)"
      and lo: "2 ^ nat (bit_length (a div 2) - 1) \<le> a div 2"
      and hi: "a div 2 < 2 ^ nat (bit_length (a div 2))"
      by simp_all
    define n where "n = nat (bit_length (a div 2) - 1)"
    with b have e0: "nat (bit_length (a div 2)) = Suc n"
      and e1: "nat (1 + bit_length (a div 2) - 1) = Suc n"
      and e2: "nat (1 + bit_length (a div 2)) = Suc (Suc n)"
      by simp_all
    have "2 * (a div 2) \<le> a" and "a < 2 * (a div 2 + 1)"
      by presburger+
    with lo hi have "2 * 2 ^ n \<le> a" and "a < 2 * (2 * 2 ^ n)"
      unfolding e0 n_def [symmetric] by simp_all
    with b show ?thesis
      unfolding step e1 e2 by simp
  qed
qed

lemma bit_length_pow2:
  assumes "0 < a"
  shows "pow2 (bit_length a - 1) \<le> of_int a" and "of_int a < pow2 (bit_length a)"
proof -
  from bit_length_bounds [OF assms]
  have b: "0 < bit_length a" and lo: "2 ^ nat (bit_length a - 1) \<le> a"
    and hi: "a < 2 ^ nat (bit_length a)"
    by simp_all
  from lo have "(of_int (2 ^ nat (bit_length a - 1)) :: rat) \<le> of_int a"
    by (simp only: of_int_le_iff)
  with b show "pow2 (bit_length a - 1) \<le> of_int a"
    by (simp add: pow2_def)
  from hi have "(of_int a :: rat) < of_int (2 ^ nat (bit_length a))"
    by (simp only: of_int_less_iff)
  with b show "of_int a < pow2 (bit_length a)"
    by (simp add: pow2_def)
qed


lemma ilog2_bounds:
  assumes "0 < q"
  shows "pow2 (ilog2 q) \<le> q" and "q < pow2 (ilog2 q + 1)"
proof -
  obtain a b where ab: "quotient_of q = (a, b)"
    by (cases "quotient_of q")
  then have b: "0 < b" and q: "q = of_int a / of_int b"
    by (simp_all add: quotient_of_denom_pos quotient_of_div)
  from assms q b have a: "0 < a"
    by (simp add: zero_less_divide_iff)
  define d where "d = bit_length a - bit_length b"
  note la = bit_length_pow2 [OF a] and lb = bit_length_pow2 [OF b]
  have bpos: "(0::rat) < of_int b"
    using b by simp
  have "q < pow2 (bit_length a) / pow2 (bit_length b - 1)"
  proof -
    have "of_int a / of_int b < pow2 (bit_length a) / (of_int b :: rat)"
      using la(2) bpos by (simp add: divide_strict_right_mono)
    also have "\<dots> \<le> pow2 (bit_length a) / pow2 (bit_length b - 1)"
      using lb(1) pow2_pos [of "bit_length a"] pow2_pos [of "bit_length b - 1"]
      by (simp add: frac_le)
    finally show ?thesis
      by (simp add: q)
  qed
  moreover have "pow2 (bit_length a) = pow2 (d + 1) * pow2 (bit_length b - 1)"
    unfolding pow2_add [symmetric] d_def by simp
  ultimately have upper: "q < pow2 (d + 1)"
    using pow2_pos [of "bit_length b - 1"] by simp
  have "pow2 (bit_length a - 1) / pow2 (bit_length b) < q"
  proof -
    have "pow2 (bit_length a - 1) / pow2 (bit_length b) < pow2 (bit_length a - 1) / (of_int b :: rat)"
      using lb(2) bpos pow2_pos [of "bit_length a - 1"]
      by (simp add: divide_strict_left_mono)
    also have "\<dots> \<le> of_int a / of_int b"
      using la(1) bpos by (simp add: divide_right_mono)
    finally show ?thesis
      by (simp add: q)
  qed
  moreover have "pow2 (bit_length a - 1) = pow2 (d - 1) * pow2 (bit_length b)"
    unfolding pow2_add [symmetric] d_def by simp
  ultimately have lower: "pow2 (d - 1) < q"
    using pow2_pos [of "bit_length b"] by simp
  have il: "ilog2 q = (if pow2 d \<le> q then d else d - 1)"
    by (simp add: ilog2_def ab d_def Let_def)
  show "pow2 (ilog2 q) \<le> q"
    using lower by (simp add: il)
  show "q < pow2 (ilog2 q + 1)"
    using upper by (simp add: il)
qed

lemma round_half_even_error: "\<bar>of_int (round_half_even x) - x\<bar> \<le> 1 / 2"
proof -
  have "of_int \<lfloor>x\<rfloor> \<le> x" and "x < of_int \<lfloor>x\<rfloor> + 1"
    by linarith+
  then show ?thesis
    by (auto simp: round_half_even_def Let_def abs_le_iff)
qed


lemma round_to_double_0: "round_to_double 0 = 0"
  by (simp add: round_to_double_def)

lemma round_to_double_error:
  assumes "q \<noteq> 0"
  shows "\<bar>round_to_double q - q\<bar> \<le> pow2 (max (ilog2 \<bar>q\<bar>) (- 1022) - 53)"
proof -
  define e where "e = max (ilog2 \<bar>q\<bar>) (- 1022)"
  define u where "u = pow2 (e - 52)"
  have u: "0 < u"
    by (simp add: u_def pow2_pos)
  have r: "round_to_double q = of_int (round_half_even (q / u)) * u"
    using assms by (simp add: round_to_double_def Let_def e_def u_def)
  have "round_to_double q - q = (of_int (round_half_even (q / u)) - q / u) * u"
    using u by (simp add: r left_diff_distrib)
  then have "\<bar>round_to_double q - q\<bar> = \<bar>of_int (round_half_even (q / u)) - q / u\<bar> * u"
    using u by (simp add: abs_mult)
  also have "\<dots> \<le> 1 / 2 * u"
    using round_half_even_error [of "q / u"] u by (intro mult_right_mono) simp_all
  also have "\<dots> = pow2 (e - 53)"
    using pow2_Suc [of "e - 53"] by (simp add: u_def)
  finally show ?thesis
    by (simp add: e_def)
qed

lemma round_to_double_error_below:
  assumes "\<bar>q\<bar> < pow2 m" and "- 1021 \<le> m"
  shows "\<bar>round_to_double q - q\<bar> \<le> pow2 (m - 54)"
proof (cases "q = 0")
  case True
  then show ?thesis
    using pow2_pos [of "m - 54"] by (simp add: round_to_double_0)
next
  case False
  then have "0 < \<bar>q\<bar>"
    by simp
  from ilog2_bounds(1) [OF this] assms(1) have "pow2 (ilog2 \<bar>q\<bar>) < pow2 m"
    by simp
  then have "ilog2 \<bar>q\<bar> < m"
    by (rule pow2_less_imp)
  with assms(2) have "max (ilog2 \<bar>q\<bar>) (- 1022) - 53 \<le> m - 54"
    by simp
  then have "pow2 (max (ilog2 \<bar>q\<bar>) (- 1022) - 53) \<le> pow2 (m - 54)"
    by (rule pow2_mono)
  with round_to_double_error [OF False] show ?thesis
    by simp
qed

lemma pow2_values:
  "pow2 1 = 2" "pow2 7 = 128" "pow2 (- 53) = 1 / 2 ^ 53" "pow2 (- 47) = 1 / 2 ^ 47"
  by (simp_all add: pow2_def)

text \<open>
  The percentage before rounding is within \<open>114 / 2\<^sup>5\<^sup>3\<close> of the exact value, and the
  rounded percentage within \<open>1 / 20 + 1 / 2\<^sup>4\<^sup>5\<close>.
\<close>

lemma raw_percentage_accuracy:
  assumes "k \<le> t" and "0 < t"
  shows "\<bar>raw_percentage k t - 100 * of_nat k / of_nat t\<bar> \<le> 164 / 2 ^ 53"
proof -
  define q :: rat where "q = of_nat k / of_nat t"
  define x1 where "x1 = round_to_double q"
  have q01: "0 \<le> q" "q \<le> 1"
    using assms by (simp_all add: q_def)
  then have "\<bar>q\<bar> < pow2 1"
    by (simp add: pow2_values)
  from round_to_double_error_below [OF this] have e1: "\<bar>x1 - q\<bar> \<le> 1 / 2 ^ 53"
    by (simp add: x1_def pow2_values)
  have "(1::rat) / 2 ^ 53 \<le> 1 / 4"
    by simp
  with e1 have "\<bar>x1 - q\<bar> \<le> 1 / 4"
    by linarith
  with q01 have "\<bar>x1 * 100\<bar> < 128"
    by linarith
  then have x1: "\<bar>x1 * 100\<bar> < pow2 7"
    by (simp only: pow2_values)
  from round_to_double_error_below [OF this]
  have e2: "\<bar>round_to_double (x1 * 100) - x1 * 100\<bar> \<le> 1 / 2 ^ 47"
    by (simp add: pow2_values)
  have raw: "raw_percentage k t = round_to_double (x1 * 100)"
    by (simp add: raw_percentage_def float_mul_def int_truediv_def x1_def q_def)
  define y where "y = round_to_double (x1 * 100)"
  from e1 have a1: "x1 - q \<le> 1 / 2 ^ 53" and a2: "- (x1 - q) \<le> 1 / 2 ^ 53"
    by (simp_all only: abs_le_iff)
  from e2 have b1: "y - x1 * 100 \<le> 1 / 2 ^ 47" and b2: "- (y - x1 * 100) \<le> 1 / 2 ^ 47"
    by (simp_all only: abs_le_iff y_def)
  from a1 b1 have c1: "y - 100 * q \<le> 1 / 2 ^ 47 + 100 * (1 / 2 ^ 53)"
    by linarith
  from a2 b2 have c2: "- (y - 100 * q) \<le> 1 / 2 ^ 47 + 100 * (1 / 2 ^ 53)"
    by linarith
  from c1 c2 have "\<bar>y - 100 * q\<bar> \<le> 1 / 2 ^ 47 + 100 * (1 / 2 ^ 53)"
    by (simp only: abs_le_iff)
  then have "\<bar>raw_percentage k t - 100 * q\<bar> \<le> 164 / 2 ^ 53"
    by (simp add: raw y_def)
  then show ?thesis
    by (simp add: q_def)
qed


lemma percent_of_accuracy:
  assumes "k \<le> t" and "0 < t"
  shows "\<bar>percent_of k t - 100 * of_nat k / of_nat t\<bar> \<le> 1 / 20 + 1 / 2 ^ 45"
proof -
  define q :: rat where "q = of_nat k / of_nat t"
  define y where "y = raw_percentage k t"
  define n where "n = round_half_even (y * 10)"
  have q01: "0 \<le> q" "q \<le> 1"
    using assms by (simp_all add: q_def)
  from raw_percentage_accuracy [OF assms]
  have a1: "y - 100 * q \<le> 164 / 2 ^ 53" and a2: "- (y - 100 * q) \<le> 164 / 2 ^ 53"
    by (simp_all only: abs_le_iff y_def q_def times_divide_eq_right)
  from round_half_even_error [of "y * 10"]
  have b1: "of_int n - y * 10 \<le> 1 / 2" and b2: "- (of_int n - y * 10) \<le> 1 / 2"
    by (simp_all only: abs_le_iff n_def)
  have small: "(164::rat) / 2 ^ 53 \<le> 1"
    by simp
  from a1 a2 b1 b2 q01 small have "\<bar>(of_int n :: rat) / 10\<bar> < 128"
    by linarith
  then have "\<bar>(of_int n :: rat) / 10\<bar> < pow2 7"
    by (simp only: pow2_values)
  from round_to_double_error_below [OF this]
  have "\<bar>round_to_double (of_int n / 10) - of_int n / 10\<bar> \<le> 1 / 2 ^ 47"
    by (simp add: pow2_values)
  then have c1: "round_to_double (of_int n / 10) - of_int n / 10 \<le> 1 / 2 ^ 47"
    and c2: "- (round_to_double (of_int n / 10) - of_int n / 10) \<le> 1 / 2 ^ 47"
    by (simp_all only: abs_le_iff)
  have res: "percent_of k t = round_to_double (of_int n / 10)"
    by (simp add: percent_of_raw py_round_def n_def y_def)
  have rel: "(1::rat) / 2 ^ 47 + 164 / 2 ^ 53 \<le> 1 / 2 ^ 45"
    by simp
  from a1 b1 c1 rel have d1: "percent_of k t - 100 * q \<le> 1 / 20 + 1 / 2 ^ 45"
    unfolding res by linarith
  from a2 b2 c2 rel have d2: "- (percent_of k t - 100 * q) \<le> 1 / 20 + 1 / 2 ^ 45"
    unfolding res by linarith
  from d1 d2 have "\<bar>percent_of k t - 100 * q\<bar> \<le> 1 / 20 + 1 / 2 ^ 45"
    by (simp only: abs_le_iff)
  then show ?thesis
    by (simp add: q_def)
qed

lemma raw_percentage_3_4: "round_to_double (round_to_double (3 / 4) * 100) = 75"
  by code_simp

text \<open>
  At the threshold 75 the comparison of the float decides the exact comparison, up
  to \<open>2\<^sup>5\<^sup>0\<close> records.
\<close>

lemma raw_percentage_below_75:
  assumes "k \<le> t" and "0 < t" and "t \<le> 2 ^ 50"
  shows "raw_percentage k t < 75 \<longleftrightarrow> 4 * k < 3 * t"
proof -
  define q :: rat where "q = of_nat k / of_nat t"
  have tpos: "(0::rat) < of_nat t"
    using assms(2) by simp
  have tle: "(of_nat t :: rat) \<le> 2 ^ 50"
    using assms(3) by (metis of_nat_le_iff of_nat_numeral of_nat_power)
  then have gap: "(164::rat) / 2 ^ 53 < 25 / of_nat t"
  proof -
    have "(164::rat) / 2 ^ 53 < 25 / 2 ^ 50"
      by simp
    also have "\<dots> \<le> 25 / of_nat t"
      using tle tpos by (intro divide_left_mono) simp_all
    finally show ?thesis .
  qed
  from raw_percentage_accuracy [OF assms(1,2)]
  have a1: "raw_percentage k t - 100 * q \<le> 164 / 2 ^ 53"
    and a2: "- (raw_percentage k t - 100 * q) \<le> 164 / 2 ^ 53"
    by (simp_all only: abs_le_iff q_def times_divide_eq_right)
  consider (less) "4 * k < 3 * t" | (eq) "4 * k = 3 * t" | (greater) "3 * t < 4 * k"
    by linarith
  then show ?thesis
  proof cases
    case less
    then have "4 * k + 1 \<le> 3 * t"
      by simp
    then have "(of_nat (4 * k + 1) :: rat) \<le> of_nat (3 * t)"
      by (simp only: of_nat_le_iff)
    then have "4 * (of_nat k :: rat) + 1 \<le> 3 * of_nat t"
      by simp
    then have "100 * q \<le> 75 - 25 / of_nat t"
      using tpos by (simp add: q_def field_simps)
    with a1 gap have "raw_percentage k t < 75"
      by linarith
    with less show ?thesis
      by simp
  next
    case eq
    then have "(of_nat (4 * k) :: rat) = of_nat (3 * t)"
      by simp
    then have q: "q = 3 / 4"
      using tpos by (simp add: q_def field_simps)
    have "raw_percentage k t = round_to_double (round_to_double q * 100)"
      by (simp add: raw_percentage_def int_truediv_def float_mul_def q_def)
    also have "\<dots> = round_to_double (round_to_double (3 / 4) * 100)"
      by (simp only: q)
    also have "\<dots> = 75"
      by (rule raw_percentage_3_4)
    finally have "raw_percentage k t = 75" .
    with eq show ?thesis
      by simp
  next
    case greater
    then have "3 * t + 1 \<le> 4 * k"
      by simp
    then have "(of_nat (3 * t + 1) :: rat) \<le> of_nat (4 * k)"
      by (simp only: of_nat_le_iff)
    then have "3 * (of_nat t :: rat) + 1 \<le> 4 * of_nat k"
      by simp
    then have "(75 * of_nat t + 25) / of_nat t \<le> 100 * of_nat k / (of_nat t :: rat)"
      using tpos by (intro divide_right_mono) linarith+
    moreover have "(75 * of_nat t + 25) / of_nat t = 75 + 25 / (of_nat t :: rat)"
      using tpos by (simp add: add_divide_distrib)
    ultimately have "75 + 25 / of_nat t \<le> 100 * q"
      by (simp add: q_def)
    with a2 gap have "75 < raw_percentage k t"
      by linarith
    with greater show ?thesis
      by simp
  qed
qed

section \<open>Properties of the Aggregator\<close>

lemma count_status_append: "count_status st (xs @ ys) = count_status st xs + count_status st ys"
  by (simp add: count_status_def)

lemma count_present_late_le: "count_status Present xs + count_status Late xs \<le> length xs"
  by (induction xs) (auto simp: count_status_def)

lemma count_status_sample_records:
  "count_status st (sample_records st' i n) = (if st = st' then n else 0)"
  by (simp add: count_status_def sample_records_def sample_attendance_def filter_map o_def)

lemma length_sample_records: "length (sample_records st i n) = n"
  by (simp add: sample_records_def)

lemma or_1_max: "or_1 n = max n 1"
  by (simp add: or_1_def)

lemma percentage_aggregate_stats:
  "percentage (aggregate_stats rs) =
     percent_of (count_status Present rs + count_status Late rs) (or_1 (length rs))"
  by (simp add: aggregate_stats_def Let_def)

text \<open>Values of the arithmetic, computed by the kernel.\<close>

lemma percent_of_0_1: "percent_of 0 (Suc 0) = 0"
  by code_simp

lemma percent_of_3_4: "percent_of 3 4 = 75"
  by code_simp

lemma percent_of_23_80: "percent_of 23 80 = 8078331831595827 / 281474976710656"
  by code_simp

lemma spec_percentage_23_80: "spec_percentage 23 80 = 8106479329266893 / 281474976710656"
  by code_simp

lemma percent_of_1_400: "percent_of 1 400 = 3602879701896397 / 18014398509481984"
  by code_simp

lemma raw_percentage_1_400: "raw_percentage 1 400 = 1 / 4"
  by code_simp

lemma double_2_10: "round_to_double (2 / 10) = 3602879701896397 / 18014398509481984"
  by code_simp

lemma double_3_10: "round_to_double (3 / 10) = 5404319552844595 / 18014398509481984"
  by code_simp

lemma double_287_10: "round_to_double (287 / 10) = 8078331831595827 / 281474976710656"
  by code_simp

lemma double_288_10: "round_to_double (288 / 10) = 8106479329266893 / 281474976710656"
  by code_simp

lemma stats_1_of_400:
  "percentage (aggregate_stats (sample_records Present 0 1 @ sample_records Absent 1 399))
   = percent_of 1 400"
  by (simp add: percentage_aggregate_stats count_status_append count_status_sample_records
      length_sample_records or_1_def)

lemma stats_23_of_80:
  "percentage (aggregate_stats (sample_records Present 0 23 @ sample_records Absent 23 57))
   = percent_of 23 80"
  by (simp add: percentage_aggregate_stats count_status_append count_status_sample_records
      length_sample_records or_1_def)

lemma round_half_even_tie:
  "round_half_even (of_int n + 1 / 2) = (if even n then n else n + 1)"
proof -
  have "\<lfloor>(of_int n :: rat) + 1 / 2\<rfloor> = n"
    by linarith
  then show ?thesis
    by (simp add: round_half_even_def Let_def)
qed

text \<open>
  Claim C2, as stated, fails.  For 23 present and 57 absent records the source
  computes \<^verbatim>\<open>round(23 / 80 * 100, 1)\<close>: the quotient is the double just below 0.2875,
  the product is 28.749999999999996 and the percentage is the double 28.7.  The formula
  of the claim, \<^verbatim>\<open>round(100 * 23 / max(80, 1), 1)\<close>, divides 2300 by 80, which is 28.75
  exactly, and gives 28.8.
\<close>

theorem aggregate_stats_formula_counterexample:
  "percentage (aggregate_stats (sample_records Present 0 23 @ sample_records Absent 23 57))
   \<noteq> spec_percentage
       (present (aggregate_stats (sample_records Present 0 23 @ sample_records Absent 23 57))
        + late (aggregate_stats (sample_records Present 0 23 @ sample_records Absent 23 57)))
       (total (aggregate_stats (sample_records Present 0 23 @ sample_records Absent 23 57)))"
  by (simp add: aggregate_stats_def Let_def count_status_append count_status_sample_records
      length_sample_records or_1_def percent_of_23_80 spec_percentage_23_80)

text \<open>
  Claim C2, amended.  For every list of Attendance records the statistics hold the
  counts of the records by status, and the percentage is
  \<^verbatim>\<open>round((present + late) / max(total, 1) * 100, 1)\<close> evaluated in double precision in
  this order: the quotient of the two counts, its product with 100, the rounding to
  one decimal.  \<^verbatim>\<open>session_detail\<close> computes the same statistics.  For the empty list
  every count and the percentage are 0, and for records [present, present, absent,
  late] the percentage is 75.0.  The percentage differs from the exact quotient
  \<open>100 * (present + late) / max total 1\<close> by at most \<open>0.05 + 2 ^ -45\<close>.
\<close>

theorem aggregate_stats_percentage:
  "aggregate_stats rs =
     \<lparr>total = length rs, present = count_status Present rs,
      absent = count_status Absent rs, late = count_status Late rs,
      excused = count_status Excused rs,
      percentage =
        py_round (float_mul
          (int_truediv (int (count_status Present rs + count_status Late rs))
             (int (max (length rs) 1))) 100) 1\<rparr>
   \<and> session_detail_stats rs = aggregate_stats rs
   \<and> aggregate_stats [] =
       \<lparr>total = 0, present = 0, absent = 0, late = 0, excused = 0, percentage = 0\<rparr>
   \<and> (status a = Present \<and> status b = Present \<and> status c = Absent \<and> status d = Late
        \<longrightarrow> percentage (aggregate_stats [a, b, c, d]) = 75)
   \<and> \<bar>percentage (aggregate_stats rs)
        - 100 * of_nat (count_status Present rs + count_status Late rs)
          / of_nat (max (length rs) 1)\<bar>
       \<le> 1 / 20 + 1 / 2 ^ 45"
proof (intro conjI impI)
  have "count_status Present rs + count_status Late rs \<le> max (length rs) 1"
    using count_present_late_le [of rs] by simp
  then show "\<bar>percentage (aggregate_stats rs)
        - 100 * of_nat (count_status Present rs + count_status Late rs)
          / of_nat (max (length rs) 1)\<bar>
       \<le> 1 / 20 + 1 / 2 ^ 45"
    unfolding percentage_aggregate_stats or_1_max by (intro percent_of_accuracy) simp_all
  show "aggregate_stats rs =
     \<lparr>total = length rs, present = count_status Present rs,
      absent = count_status Absent rs, late = count_status Late rs,
      excused = count_status Excused rs,
      percentage =
        py_round (float_mul
          (int_truediv (int (count_status Present rs + count_status Late rs))
             (int (max (length rs) 1))) 100) 1\<rparr>"
    by (simp add: aggregate_stats_def Let_def percent_of_def or_1_max)
  show "session_detail_stats rs = aggregate_stats rs"
    by (cases rs) (simp_all add: session_detail_stats_def aggregate_stats_def Let_def
        or_1_def count_status_def percent_of_0_1)
  show "aggregate_stats [] =
       \<lparr>total = 0, present = 0, absent = 0, late = 0, excused = 0, percentage = 0\<rparr>"
    by (simp add: aggregate_stats_def Let_def or_1_def count_status_def percent_of_0_1)
next
  assume "status a = Present \<and> status b = Present \<and> status c = Absent \<and> status d = Late"
  then have "count_status Present [a, b, c, d] + count_status Late [a, b, c, d] = 3"
    by (simp add: count_status_def)
  moreover have "or_1 (length [a, b, c, d]) = 4"
    by (simp add: or_1_def)
  ultimately show "percentage (aggregate_stats [a, b, c, d]) = 75"
    by (simp only: percentage_aggregate_stats percent_of_3_4)
qed

theorem aggregate_stats_percentage_witness:
  "status (sample_attendance Present 0) = Present
   \<and> status (sample_attendance Present 1) = Present
   \<and> status (sample_attendance Absent 2) = Absent
   \<and> status (sample_attendance Late 3) = Late
   \<and> percentage (aggregate_stats
        [sample_attendance Present 0, sample_attendance Present 1,
         sample_attendance Absent 2, sample_attendance Late 3]) = 75"
  using aggregate_stats_percentage
    [of "[]" "sample_attendance Present 0" "sample_attendance Present 1"
        "sample_attendance Absent 2" "sample_attendance Late 3"]
  by (simp add: sample_attendance_def)

text \<open>
  Claim C8, as stated, fails.  For 1 present record of 400 the exact percentage 0.25
  is halfway between 0.2 and 0.3, and the source returns the double 0.2, the smaller
  multiple: \<^verbatim>\<open>round\<close> sends a tie to the even digit.  For 23 present records of 80 the
  exact percentage 28.75 is halfway between 28.7 and 28.8, and the source returns 28.7:
  the double it rounds is 28.749999999999996, below the tie.
\<close>

theorem percentage_half_up_counterexample:
  "(100 * (1 + 0) / 400 :: rat) = 2 / 10 + 1 / 20
   \<and> percentage (aggregate_stats (sample_records Present 0 1 @ sample_records Absent 1 399))
       = round_to_double (2 / 10)
   \<and> percentage (aggregate_stats (sample_records Present 0 1 @ sample_records Absent 1 399))
       \<noteq> round_to_double (3 / 10)
   \<and> (100 * (23 + 0) / 80 :: rat) = 287 / 10 + 1 / 20
   \<and> percentage (aggregate_stats (sample_records Present 0 23 @ sample_records Absent 23 57))
       = round_to_double (287 / 10)
   \<and> percentage (aggregate_stats (sample_records Present 0 23 @ sample_records Absent 23 57))
       \<noteq> round_to_double (288 / 10)"
proof (intro conjI)
  show "(100 * (1 + 0) / 400 :: rat) = 2 / 10 + 1 / 20"
    by simp
  show "(100 * (23 + 0) / 80 :: rat) = 287 / 10 + 1 / 20"
    by simp
  show "percentage (aggregate_stats (sample_records Present 0 1 @ sample_records Absent 1 399))
       = round_to_double (2 / 10)"
    unfolding stats_1_of_400 percent_of_1_400 double_2_10 by (rule refl)
  show "percentage (aggregate_stats (sample_records Present 0 1 @ sample_records Absent 1 399))
       \<noteq> round_to_double (3 / 10)"
    unfolding stats_1_of_400 percent_of_1_400 double_3_10 by simp
  show "percentage (aggregate_stats (sample_records Present 0 23 @ sample_records Absent 23 57))
       = round_to_double (287 / 10)"
    unfolding stats_23_of_80 percent_of_23_80 double_287_10 by (rule refl)
  show "percentage (aggregate_stats (sample_records Present 0 23 @ sample_records Absent 23 57))
       \<noteq> round_to_double (288 / 10)"
    unfolding stats_23_of_80 percent_of_23_80 double_288_10 by simp
qed

text \<open>
  Claim C8, amended.  For every non-empty list of Attendance records the percentage is
  rounded to 1 decimal place with ties to the even digit, and the value that is rounded
  is the double \<open>x\<close> computed as \<^verbatim>\<open>(present + late) / total * 100\<close>: whenever \<open>10 x\<close> is
  exactly halfway between the integers \<open>n\<close> and \<open>n + 1\<close>, the result is the double
  nearest to the even one of the two, divided by 10 (for present = 1, total = 400 the
  value 0.25 rounds to 0.2).
\<close>

theorem percentage_ties_to_even:
  assumes "rs \<noteq> []"
    and "raw_percentage (count_status Present rs + count_status Late rs) (length rs) * 10
         = of_int n + 1 / 2"
  shows "percentage (aggregate_stats rs)
         = round_to_double (of_int (if even n then n else n + 1) / 10)"
proof -
  have "or_1 (length rs) = length rs"
    using assms(1) by (simp add: or_1_def)
  then show ?thesis
    using assms(2)
    by (simp add: percentage_aggregate_stats percent_of_raw py_round_def round_half_even_tie)
qed

theorem percentage_ties_to_even_witness:
  "sample_records Present 0 1 @ sample_records Absent 1 399 \<noteq> []
   \<and> raw_percentage
        (count_status Present (sample_records Present 0 1 @ sample_records Absent 1 399)
         + count_status Late (sample_records Present 0 1 @ sample_records Absent 1 399))
        (length (sample_records Present 0 1 @ sample_records Absent 1 399)) * 10
      = of_int 2 + 1 / 2
   \<and> percentage (aggregate_stats (sample_records Present 0 1 @ sample_records Absent 1 399))
      = round_to_double (of_int 2 / 10)"
proof -
  have ne: "sample_records Present 0 1 @ sample_records Absent 1 399 \<noteq> []"
    by (simp add: sample_records_def)
  have tie: "raw_percentage
        (count_status Present (sample_records Present 0 1 @ sample_records Absent 1 399)
         + count_status Late (sample_records Present 0 1 @ sample_records Absent 1 399))
        (length (sample_records Present 0 1 @ sample_records Absent 1 399)) * 10
      = of_int 2 + 1 / 2"
  proof -
    have "raw_percentage
        (count_status Present (sample_records Present 0 1 @ sample_records Absent 1 399)
         + count_status Late (sample_records Present 0 1 @ sample_records Absent 1 399))
        (length (sample_records Present 0 1 @ sample_records Absent 1 399))
      = raw_percentage 1 400"
      by (simp add: count_status_append count_status_sample_records length_sample_records)
    then show ?thesis
      unfolding raw_percentage_1_400 by simp
  qed
  from percentage_ties_to_even [OF ne tie] ne tie show ?thesis
    by simp
qed

section \<open>Properties of the student statistics\<close>

lemma round_half_even_0: "round_half_even 0 = 0"
  by (simp add: round_half_even_def)

lemma percent_of_0: "percent_of 0 t = 0"
  by (simp add: percent_of_def int_truediv_def float_mul_def py_round_def
      round_to_double_def round_half_even_0)

lemma count_status_filter_le: "count_status st (filter P xs) \<le> count_status st xs"
  by (induction xs) (auto simp: count_status_def)

lemma count_status_sample_history:
  "count_status st (sample_history st' i n) = (if st = st' then n else 0)"
  by (simp add: count_status_def sample_history_def filter_map o_def)

lemma length_sample_history: "length (sample_history st i n) = n"
  by (simp add: sample_history_def)

lemma student_records_sample:
  "student_records (sample_database (sample_history st i n @ sample_history st' j m))
     (sample_student 7) = sample_history st i n @ sample_history st' j m"
  by (simp add: student_records_def sample_database_def sample_history_def sample_student_def
      filter_map o_def)

lemma course_filter_sample:
  "filter (\<lambda>r. course_pk (course (session r)) = course_pk (sample_course sts))
     (sample_history st i n) = sample_history st i n"
  by (simp add: sample_history_def sample_session_at_def sample_course_def filter_map o_def)

lemma student_courses_sample:
  "student_courses (sample_database rs) (sample_student 7) = [sample_course [sample_student 7]]"
  by (simp add: student_courses_def sample_database_def sample_course_def sample_student_def)

text \<open>
  Claim C10, as stated, fails.  A student with 23 present and 57 absent records in a
  course gets the per-course percentage 28.7 (the double of 23 / 80 * 100 is
  28.749999999999996), where the formula of the claim,
  \<^verbatim>\<open>round(100 * present / max(total, 1), 1)\<close>, gives 28.8.
\<close>

theorem course_percentage_formula_counterexample:
  "course_wise_stats
     (attendance_stats (sample_database (sample_history Present 0 23 @ sample_history Absent 23 57))
        (sample_student 7))
   = [\<lparr>cs_course_code = ''CS101'', cs_course_name = ''Programming'', cs_total = 80,
       cs_present = 23, cs_absent = 57, cs_percentage = round_to_double (287 / 10)\<rparr>]
   \<and> spec_percentage 23 80 = round_to_double (288 / 10)
   \<and> round_to_double (287 / 10) \<noteq> round_to_double (288 / 10)"
proof (intro conjI)
  have "course_wise_stats
     (attendance_stats (sample_database (sample_history Present 0 23 @ sample_history Absent 23 57))
        (sample_student 7))
   = [\<lparr>cs_course_code = ''CS101'', cs_course_name = ''Programming'', cs_total = 80,
       cs_present = 23, cs_absent = 57, cs_percentage = percent_of 23 80\<rparr>]"
    by (simp add: attendance_stats_def Let_def student_records_sample student_courses_sample
        course_stat_of_def course_filter_sample count_status_append count_status_sample_history
        length_sample_history or_1_max)
       (simp add: sample_course_def)
  then show "course_wise_stats
     (attendance_stats (sample_database (sample_history Present 0 23 @ sample_history Absent 23 57))
        (sample_student 7))
   = [\<lparr>cs_course_code = ''CS101'', cs_course_name = ''Programming'', cs_total = 80,
       cs_present = 23, cs_absent = 57, cs_percentage = round_to_double (287 / 10)\<rparr>]"
    unfolding percent_of_23_80 double_287_10 .
  show "spec_percentage 23 80 = round_to_double (288 / 10)"
    unfolding spec_percentage_23_80 double_288_10 by (rule refl)
  show "round_to_double (287 / 10) \<noteq> round_to_double (288 / 10)"
    unfolding double_287_10 double_288_10 by simp
qed

text \<open>
  Claim C10, amended.  In \<^verbatim>\<open>attendance_stats\<close> the percentage of each course is
  \<^verbatim>\<open>round(present / max(total, 1) * 100, 1)\<close>, evaluated in double precision in this
  order, with only the records of status present in the numerator, whereas the overall
  percentage counts present and late records.  A course in which all the records of the
  student are late has the per-course percentage 0.0, while those records count in the
  numerator of the overall percentage.  The per-course percentage differs from the exact
  quotient \<open>100 * present / max total 1\<close> by at most \<open>0.05 + 2 ^ -45\<close>.
\<close>

theorem attendance_stats_course_percentage:
  "course_wise_stats (attendance_stats db st) =
     map (\<lambda>c. \<lparr>cs_course_code = code c, cs_course_name = course_name c,
               cs_total = length (filter (\<lambda>r. course_pk (course (session r)) = course_pk c)
                                    (student_records db st)),
               cs_present = count_status Present
                              (filter (\<lambda>r. course_pk (course (session r)) = course_pk c)
                                 (student_records db st)),
               cs_absent = count_status Absent
                             (filter (\<lambda>r. course_pk (course (session r)) = course_pk c)
                                (student_records db st)),
               cs_percentage =
                 py_round (float_mul
                   (int_truediv
                      (int (count_status Present
                              (filter (\<lambda>r. course_pk (course (session r)) = course_pk c)
                                 (student_records db st))))
                      (int (max (length (filter (\<lambda>r. course_pk (course (session r)) = course_pk c)
                                           (student_records db st))) 1))) 100) 1\<rparr>)
       (student_courses db st)
   \<and> attendance_percentage (attendance_stats db st) =
       py_round (float_mul
         (int_truediv
            (int (count_status Present (student_records db st)
                  + count_status Late (student_records db st)))
            (int (max (length (student_records db st)) 1))) 100) 1
   \<and> (count_status Late (filter (\<lambda>r. course_pk (course (session r)) = course_pk c)
                             (student_records db st))
        = length (filter (\<lambda>r. course_pk (course (session r)) = course_pk c)
                    (student_records db st))
      \<longrightarrow> cs_percentage (course_stat_of (student_records db st) c) = 0
          \<and> length (filter (\<lambda>r. course_pk (course (session r)) = course_pk c)
                       (student_records db st))
              \<le> present_count (attendance_stats db st) + late_count (attendance_stats db st))
   \<and> \<bar>cs_percentage (course_stat_of (student_records db st) c)
        - 100 * of_nat (count_status Present
                          (filter (\<lambda>r. course_pk (course (session r)) = course_pk c)
                             (student_records db st)))
          / of_nat (max (length (filter (\<lambda>r. course_pk (course (session r)) = course_pk c)
                                   (student_records db st))) 1)\<bar>
       \<le> 1 / 20 + 1 / 2 ^ 45"
proof (intro conjI impI)
  let ?rs = "filter (\<lambda>r. course_pk (course (session r)) = course_pk c)
               (student_records db st)"
  have le: "count_status Present ?rs \<le> max (length ?rs) 1"
    using count_present_late_le [of ?rs] by linarith
  have pct: "cs_percentage (course_stat_of (student_records db st) c)
      = percent_of (count_status Present ?rs) (max (length ?rs) 1)"
    by (simp add: course_stat_of_def Let_def or_1_max)
  show "\<bar>cs_percentage (course_stat_of (student_records db st) c)
        - 100 * of_nat (count_status Present ?rs) / of_nat (max (length ?rs) 1)\<bar>
       \<le> 1 / 20 + 1 / 2 ^ 45"
    unfolding pct using le by (intro percent_of_accuracy) simp_all
  show "course_wise_stats (attendance_stats db st) =
     map (\<lambda>c. \<lparr>cs_course_code = code c, cs_course_name = course_name c,
               cs_total = length (filter (\<lambda>r. course_pk (course (session r)) = course_pk c)
                                    (student_records db st)),
               cs_present = count_status Present
                              (filter (\<lambda>r. course_pk (course (session r)) = course_pk c)
                                 (student_records db st)),
               cs_absent = count_status Absent
                             (filter (\<lambda>r. course_pk (course (session r)) = course_pk c)
                                (student_records db st)),
               cs_percentage =
                 py_round (float_mul
                   (int_truediv
                      (int (count_status Present
                              (filter (\<lambda>r. course_pk (course (session r)) = course_pk c)
                                 (student_records db st))))
                      (int (max (length (filter (\<lambda>r. course_pk (course (session r)) = course_pk c)
                                           (student_records db st))) 1))) 100) 1\<rparr>)
       (student_courses db st)"
    by (simp add: attendance_stats_def Let_def course_stat_of_def percent_of_def or_1_max)
  show "attendance_percentage (attendance_stats db st) =
       py_round (float_mul
         (int_truediv
            (int (count_status Present (student_records db st)
                  + count_status Late (student_records db st)))
            (int (max (length (student_records db st)) 1))) 100) 1"
    by (simp add: attendance_stats_def Let_def percent_of_def or_1_max)
next
  let ?crs = "filter (\<lambda>r. course_pk (course (session r)) = course_pk c) (student_records db st)"
  assume late: "count_status Late ?crs = length ?crs"
  have "count_status Present ?crs + count_status Late ?crs \<le> length ?crs"
    by (rule count_present_late_le)
  with late have "count_status Present ?crs = 0"
    by simp
  then show "cs_percentage (course_stat_of (student_records db st) c) = 0"
    by (simp add: course_stat_of_def Let_def percent_of_0)
  have "count_status Late ?crs \<le> count_status Late (student_records db st)"
    by (rule count_status_filter_le)
  with late show "length ?crs
      \<le> present_count (attendance_stats db st) + late_count (attendance_stats db st)"
    by (simp add: attendance_stats_def Let_def)
qed


lemma percent_of_3_3: "percent_of 3 3 = 100"
  by code_simp

lemma student_records_sample_single:
  "student_records (sample_database (sample_history st i n)) (sample_student 7)
   = sample_history st i n"
  by (simp add: student_records_def sample_database_def sample_history_def sample_student_def
      filter_map o_def)

theorem attendance_stats_course_percentage_witness:
  "count_status Late
     (filter (\<lambda>r. course_pk (course (session r)) = course_pk (sample_course [sample_student 7]))
        (student_records (sample_database (sample_history Late 0 3)) (sample_student 7)))
   = length
       (filter (\<lambda>r. course_pk (course (session r)) = course_pk (sample_course [sample_student 7]))
          (student_records (sample_database (sample_history Late 0 3)) (sample_student 7)))
   \<and> cs_percentage
        (course_stat_of
           (student_records (sample_database (sample_history Late 0 3)) (sample_student 7))
           (sample_course [sample_student 7])) = 0
   \<and> late_count (attendance_stats (sample_database (sample_history Late 0 3)) (sample_student 7))
       = 3
   \<and> attendance_percentage
        (attendance_stats (sample_database (sample_history Late 0 3)) (sample_student 7)) = 100"
proof -
  have late: "count_status Late
     (filter (\<lambda>r. course_pk (course (session r)) = course_pk (sample_course [sample_student 7]))
        (student_records (sample_database (sample_history Late 0 3)) (sample_student 7)))
   = length
       (filter (\<lambda>r. course_pk (course (session r)) = course_pk (sample_course [sample_student 7]))
          (student_records (sample_database (sample_history Late 0 3)) (sample_student 7)))"
    by (simp add: student_records_sample_single course_filter_sample
        count_status_sample_history length_sample_history)
  have count: "late_count
      (attendance_stats (sample_database (sample_history Late 0 3)) (sample_student 7)) = 3"
    by (simp add: attendance_stats_def Let_def student_records_sample_single
        count_status_sample_history)
  have overall: "attendance_percentage
      (attendance_stats (sample_database (sample_history Late 0 3)) (sample_student 7)) = 100"
    by (simp add: attendance_stats_def Let_def student_records_sample_single
        count_status_sample_history length_sample_history or_1_max percent_of_3_3)
  from attendance_stats_course_percentage
    [of "sample_database (sample_history Late 0 3)" "sample_student 7"
        "sample_course [sample_student 7]"]
    late count overall
  show ?thesis
    by blast
qed

section \<open>Properties of the Absentee Resolver: detection\<close>

lemma py_set_subset: "set (py_set xs) \<subseteq> set xs"
  by (induction xs) auto

lemma py_set_difference_disjoint:
  assumes "\<And>x y. x \<in> set a \<Longrightarrow> y \<in> set b \<Longrightarrow> \<not> py_eq x y"
  shows "py_set_difference a b = a"
proof -
  have "filter (py_eq x) b = []" if "x \<in> set a" for x
    using assms that by (auto simp: filter_empty_conv)
  then show ?thesis
    by (simp add: py_set_difference_def)
qed

lemma detect_session_absentees_all_enrolled:
  "detect_session_absentees db s = py_set (map Instance (enrolled_active s))"
proof -
  have "\<not> py_eq x y"
    if "x \<in> set (py_set (map Instance (enrolled_active s)))"
      and "y \<in> set (py_set (map (\<lambda>r. Int_value (student_pk (student r)))
            (filter (\<lambda>r. status r = Present \<or> status r = Late) (session_records db s))))"
    for x y
  proof -
    from that(1) py_set_subset obtain st where "x = Instance st"
      by fastforce
    moreover from that(2) py_set_subset obtain k where "y = Int_value k"
      by fastforce
    ultimately show ?thesis
      by simp
  qed
  then show ?thesis
    by (simp add: detect_session_absentees_def Let_def py_set_difference_disjoint)
qed

text \<open>
  Claim C9 against the code.  The session of the sample course has one active enrolled
  student, and that student has a present record in the session.  The difference of
  the set of Student instances and the set of integer keys removes nothing, so the
  student is returned as an absentee; the students described by the claim and by the
  docstring are none.
\<close>

theorem detect_session_absentees_returns_present_student:
  "detect_session_absentees (sample_database (sample_history Present 3 1)) (sample_session_at 3)
   = [Instance (sample_student 7)]
   \<and> session_records (sample_database (sample_history Present 3 1)) (sample_session_at 3)
     = sample_history Present 3 1
   \<and> spec_session_absentees (sample_database (sample_history Present 3 1)) (sample_session_at 3)
     = []"
  by code_simp

section \<open>Properties of the Notification Dispatcher: the bulk path\<close>

lemma log_create_notification_table [simp]:
  "notification_table (log_create db n pn ch rcpt) = notification_table db"
  by (simp add: log_create_def)

lemma log_create_attendance_table [simp]:
  "attendance_table (log_create db n pn ch rcpt) = attendance_table db"
  by (simp add: log_create_def)

lemma simulate_send_notification_length:
  "length (notification_table (snd (simulate_send_notification db n)))
   = length (notification_table db)"
  by (simp add: simulate_send_notification_def Let_def notification_save_def split_def)

lemma simulate_send_notification_attendance [simp]:
  "attendance_table (snd (simulate_send_notification db n)) = attendance_table db"
  by (simp add: simulate_send_notification_def Let_def notification_save_def split_def)

lemma simulate_send_parent_notification_table [simp]:
  "notification_table (simulate_send_parent_notification db pn) = notification_table db"
  by (simp add: simulate_send_parent_notification_def Let_def parent_notification_save_def
      split_def)

lemma parent_notification_create_table [simp]:
  "notification_table (snd (parent_notification_create db mk)) = notification_table db"
  by (simp add: parent_notification_create_def Let_def)

lemma notification_create_length:
  "length (notification_table (snd (notification_create db mk)))
   = Suc (length (notification_table db))"
  by (simp add: notification_create_def Let_def)

lemma parent_part_notification_table:
  "notification_table
     (case parent st of
        None \<Rightarrow> db2
      | Some p \<Rightarrow>
          let (pn, db') = parent_notification_create db2 (mk p)
          in simulate_send_parent_notification db' pn)
   = notification_table db2"
  by (simp add: split_def Let_def split: option.split)

lemma send_absentee_loop_count:
  "fst (send_absentee_loop db k rs) = k + length rs
   \<and> length (notification_table (snd (send_absentee_loop db k rs)))
      = length (notification_table db) + length rs"
proof (induction rs arbitrary: db k)
  case Nil
  then show ?case by simp
next
  case (Cons r rs)
  show ?case
    by (simp add: split_def Let_def Cons.IH parent_part_notification_table
        simulate_send_notification_length notification_create_length)
qed

lemma send_absentee_notifications_no_suppression:
  "fst (send_absentee_notifications db s) = length (absent_records db s)
   \<and> length (notification_table (snd (send_absentee_notifications db s)))
      = length (notification_table db) + length (absent_records db s)"
  using send_absentee_loop_count [of db 0 "absent_records db s"]
  by (simp add: send_absentee_notifications_def)


text \<open>
  Claim C5 against the code.  In \<open>notified_database\<close> the one absent record of the
  session already has its absence notification.  Running the bulk path again creates a
  second notification for the record, where the single-record path, invoked for every
  absent record, changes nothing: the bulk path has no check for an existing
  notification.
\<close>

theorem send_absentee_notifications_duplicates:
  "absent_records notified_database (sample_session_at 3) = sample_history Absent 3 1
   \<and> length (notification_table notified_database) = 1
   \<and> length (existing_absence_notifications notified_database (sample_history Absent 3 1 ! 0))
       = 1
   \<and> length (notification_table
        (snd (send_absentee_notifications notified_database (sample_session_at 3)))) = 2
   \<and> length (existing_absence_notifications
        (snd (send_absentee_notifications notified_database (sample_session_at 3)))
        (sample_history Absent 3 1 ! 0)) = 2
   \<and> spec_on_bulk_mark notified_database (sample_session_at 3) = notified_database"
  by code_simp

section \<open>Properties of the Notification Dispatcher: the single-record path\<close>

lemmas dispatcher_defs =
  notification_create_def simulate_send_notification_def absence_notification_def
  log_create_def notification_save_def parent_notification_create_def
  simulate_send_parent_notification_def parent_notification_save_def
  parent_absence_notification_def sent_notification_def










section \<open>Properties of the Eligibility Checker and the Attendance Ledger\<close>

lemma pair_records_in_pair: "pair_records db s st = filter (in_pair s st) (attendance_table db)"
  by (simp add: pair_records_def in_pair_def [abs_def])

lemma mark_defaults_fields [simp]:
  "attendance_pk (mark_defaults u d r) = attendance_pk r"
  "session (mark_defaults u d r) = session r"
  "student (mark_defaults u d r) = student r"
  "status (mark_defaults u d r) = data_status d"
  by (simp_all add: mark_defaults_def)

lemma in_pair_mark_defaults [simp]: "in_pair s st (mark_defaults u d r) = in_pair s st r"
  by (simp add: in_pair_def)

lemma new_attendance_fields [simp]:
  "attendance_pk (new_attendance k s st) = k"
  "session (new_attendance k s st) = s"
  "student (new_attendance k s st) = st"
  by (simp_all add: new_attendance_def)

lemma in_pair_new_attendance [simp]: "in_pair s st (new_attendance k s st)"
  by (simp add: in_pair_def new_attendance_def)

lemma send_single_tables [simp]:
  "attendance_table (snd (send_single_absentee_notification db a)) = attendance_table db"
  "session_table (snd (send_single_absentee_notification db a)) = session_table db"
  "student_table (snd (send_single_absentee_notification db a)) = student_table db"
  by (simp_all add: send_single_absentee_notification_def dispatcher_defs Let_def
      split: option.split)

text \<open>Overwriting the rows of a key, in a table whose keys are distinct.\<close>

lemma save_distinct:
  assumes "distinct (map attendance_pk xs)" and "r \<in> set xs"
  shows "map (\<lambda>x. if attendance_pk x = attendance_pk r then a else x) xs
         = map (\<lambda>x. if x = r then a else x) xs"
proof (rule map_cong [OF refl])
  fix x
  assume "x \<in> set xs"
  with assms have "attendance_pk x = attendance_pk r \<longleftrightarrow> x = r"
    by (metis distinct_map inj_on_eq_iff)
  then show "(if attendance_pk x = attendance_pk r then a else x) = (if x = r then a else x)"
    by simp
qed

lemma filter_replace_single:
  assumes "filter P xs = [r]" and "P a"
  shows "filter P (map (\<lambda>x. if x = r then a else x) xs) = [a]"
  using assms
proof (induction xs)
  case Nil
  then show ?case by simp
next
  case (Cons x xs)
  show ?case
  proof (cases "P x")
    case True
    with Cons.prems have x: "x = r" and rest: "filter P xs = []"
      by simp_all
    from rest have "\<forall>y \<in> set xs. \<not> P y"
      by (simp add: filter_empty_conv)
    then have "filter P (map (\<lambda>x. if x = r then a else x) xs) = []"
      using True x by (auto simp: filter_empty_conv)
    with x Cons.prems(2) show ?thesis
      by simp
  next
    case False
    with Cons.prems have rest: "filter P xs = [r]"
      by simp
    then have "r \<in> set (filter P xs)"
      by simp
    then have "P r"
      by simp
    with False have "x \<noteq> r"
      by blast
    with Cons.IH [OF rest Cons.prems(2)] False show ?thesis
      by simp
  qed
qed

lemma length_filter_replace:
  assumes "Q a = Q r"
  shows "length (filter Q (map (\<lambda>x. if x = r then a else x) xs)) = length (filter Q xs)"
  using assms by (induction xs) auto


lemma update_or_create_create:
  assumes "pair_records db s st = []"
  shows "update_or_create db s st f
    = Inr (f (new_attendance (next_id db) s st), True,
           db\<lparr>attendance_table := attendance_table db @ [f (new_attendance (next_id db) s st)],
              next_id := Suc (next_id db)\<rparr>)"
  using assms by (simp add: update_or_create_def objects_create_def Let_def)

lemma update_or_create_update:
  assumes "pair_records db s st = [r]"
  shows "update_or_create db s st f = Inr (f r, False, save_attendance db (f r))"
  using assms by (simp add: update_or_create_def Let_def)

lemma update_or_create_cases:
  assumes "update_or_create db s st f = Inr (a, c, db')"
  obtains
    (created) "pair_records db s st = []" "c" "a = f (new_attendance (next_id db) s st)"
      "db' = db\<lparr>attendance_table := attendance_table db @ [a], next_id := Suc (next_id db)\<rparr>"
  | (updated) r where "pair_records db s st = [r]" "\<not> c" "a = f r"
      "db' = save_attendance db a"
proof (cases "pair_records db s st")
  case Nil
  from assms update_or_create_create [OF Nil, of f]
  have "c" and "a = f (new_attendance (next_id db) s st)"
    and "db' = db\<lparr>attendance_table := attendance_table db @ [a],
                     next_id := Suc (next_id db)\<rparr>"
    by auto
  with Nil show ?thesis
    by (rule created)
next
  case (Cons r rs)
  show ?thesis
  proof (cases rs)
    case Nil
    with Cons have one: "pair_records db s st = [r]"
      by simp
    from assms update_or_create_update [OF one, of f]
    have "\<not> c" and "a = f r" and "db' = save_attendance db a"
      by auto
    with one show ?thesis
      by (rule updated)
  next
    case (Cons r' rs')
    with \<open>pair_records db s st = r # rs\<close> assms show ?thesis
      by (simp add: update_or_create_def)
  qed
qed

lemma update_or_create_mark:
  assumes keys: "distinct (map attendance_pk (attendance_table db))"
    and fresh: "pair_records db s st = [] \<Longrightarrow>
                  next_id db \<notin> set (map attendance_pk (attendance_table db))"
    and upd: "update_or_create db s st (mark_defaults u d) = Inr (a, c, db')"
  shows "pair_records db' s st = [a]"
    and "status a = data_status d"
    and "distinct (map attendance_pk (attendance_table db'))"
    and "session_table db' = session_table db"
    and "student_table db' = student_table db"
    and "\<not> c \<Longrightarrow> length (session_records db' s) = length (session_records db s)"
    and "\<not> c \<Longrightarrow> length (attendance_table db') = length (attendance_table db)"
proof -
  from upd have "pair_records db' s st = [a] \<and> status a = data_status d
      \<and> distinct (map attendance_pk (attendance_table db'))
      \<and> session_table db' = session_table db \<and> student_table db' = student_table db
      \<and> (\<not> c \<longrightarrow> length (session_records db' s) = length (session_records db s)
                \<and> length (attendance_table db') = length (attendance_table db))"
  proof (cases rule: update_or_create_cases)
    case created
    from fresh [OF created(1)] created show ?thesis
      using keys by (simp add: pair_records_in_pair)
  next
    case (updated r)
    from updated(1) have "r \<in> set (filter (in_pair s st) (attendance_table db))"
      by (simp add: pair_records_in_pair)
    then have r: "r \<in> set (attendance_table db)" and pr: "in_pair s st r"
      by simp_all
    have pk: "attendance_pk a = attendance_pk r" and ses: "session a = session r"
      using updated(3) by simp_all
    have tab: "attendance_table db' = map (\<lambda>x. if x = r then a else x) (attendance_table db)"
      using updated(4) save_distinct [OF keys r, of a] pk
      by (simp add: save_attendance_def)
    have one: "filter (in_pair s st) (map (\<lambda>x. if x = r then a else x) (attendance_table db)) = [a]"
      using updated(1) pr updated(3)
      by (intro filter_replace_single) (simp_all add: pair_records_in_pair)
    have pks: "map attendance_pk (map (\<lambda>x. if x = r then a else x) (attendance_table db))
        = map attendance_pk (attendance_table db)"
      using pk by (induction "attendance_table db") auto
    have len: "length (filter (\<lambda>x. session_pk (session x) = session_pk s)
          (map (\<lambda>x. if x = r then a else x) (attendance_table db)))
        = length (filter (\<lambda>x. session_pk (session x) = session_pk s) (attendance_table db))"
      using ses by (intro length_filter_replace) simp
    have t1: "pair_records db' s st = [a]"
      unfolding pair_records_in_pair tab by (rule one)
    have t2: "distinct (map attendance_pk (attendance_table db'))"
      unfolding tab pks by (rule keys)
    have t3: "length (session_records db' s) = length (session_records db s)"
      unfolding session_records_def tab by (rule len)
    have t4: "length (attendance_table db') = length (attendance_table db)"
      unfolding tab by simp
    have t5: "session_table db' = session_table db \<and> student_table db' = student_table db"
      using updated(4) by (simp add: save_attendance_def)
    have t6: "status a = data_status d"
      using updated(3) by simp
    from t1 t2 t3 t4 t5 t6 show ?thesis
      by blast
  qed
  then show "pair_records db' s st = [a]"
    and "status a = data_status d"
    and "distinct (map attendance_pk (attendance_table db'))"
    and "session_table db' = session_table db"
    and "student_table db' = student_table db"
    and "\<not> c \<Longrightarrow> length (session_records db' s) = length (session_records db s)"
    and "\<not> c \<Longrightarrow> length (attendance_table db') = length (attendance_table db)"
    by simp_all
qed


lemma mark_attendance_eligible:
  assumes "get_object_or_404 (session_table db) session_pk (data_session_id d) = Inr s"
    and "get_object_or_404 (student_table db) student_pk (data_student_id d) = Inr st"
    and "session_is_active s"
    and "student_pk st \<in> set (map student_pk (students (course s)))"
  shows "mark_attendance db u d =
     (case update_or_create db s st (mark_defaults u d) of
        Inl e \<Rightarrow> (Response_error 500 (str_error ''Attendance'' e), db)
      | Inr (a, created, db1) \<Rightarrow>
          (Response_success (attendance_pk a) created,
           if data_status d = Absent
           then snd (send_single_absentee_notification db1 a) else db1))"
  using assms by (simp add: mark_attendance_def Let_def split: sum.split prod.split)

lemma mark_attendance_success:
  assumes s: "get_object_or_404 (session_table db) session_pk (data_session_id d) = Inr s"
    and st: "get_object_or_404 (student_table db) student_pk (data_student_id d) = Inr st"
    and ok: "fst (mark_attendance db u d) = Response_success k c"
  obtains a db1 where "session_is_active s"
    and "student_pk st \<in> set (map student_pk (students (course s)))"
    and "update_or_create db s st (mark_defaults u d) = Inr (a, c, db1)"
    and "attendance_pk a = k"
    and "snd (mark_attendance db u d)
         = (if data_status d = Absent
            then snd (send_single_absentee_notification db1 a) else db1)"
proof -
  have act: "session_is_active s"
    using ok by (rule contrapos_pp) (simp add: mark_attendance_def s st)
  have enr: "student_pk st \<in> set (map student_pk (students (course s)))"
    using ok act by (rule_tac ccontr) (simp add: mark_attendance_def s st)
  note unfold = mark_attendance_eligible [OF s st act enr, of u]
  show ?thesis
  proof (cases "update_or_create db s st (mark_defaults u d)")
    case (Inl e)
    with ok unfold show ?thesis
      by simp
  next
    case (Inr res)
    obtain a c' db1 where res: "res = (a, c', db1)"
      by (cases res)
    with Inr ok unfold have "attendance_pk a = k" and "c' = c"
      by simp_all
    with that [of a db1] act enr Inr res unfold show ?thesis
      by simp
  qed
qed


lemma pair_records_cong:
  "attendance_table x = attendance_table y \<Longrightarrow> pair_records x s st = pair_records y s st"
  by (simp add: pair_records_def)

lemma session_records_cong:
  "attendance_table x = attendance_table y \<Longrightarrow> session_records x s = session_records y s"
  by (simp add: session_records_def)

lemma after_notification:
  "attendance_table (if b then snd (send_single_absentee_notification db a) else db)
     = attendance_table db"
  "session_table (if b then snd (send_single_absentee_notification db a) else db)
     = session_table db"
  "student_table (if b then snd (send_single_absentee_notification db a) else db)
     = student_table db"
  by simp_all

text \<open>
  Claim C1.  The Attendance table has distinct primary keys and the key generator is
  fresh.  When a mark for a session and a student succeeds, a second mark for the same
  pair, with any status and by any user, succeeds as an update of the same row
  (\<^verbatim>\<open>created\<close> is false): after the first mark the pair has exactly one row, after the
  second mark it has exactly one row, whose status is the status of the second mark, and
  the second mark changes neither the number of rows of the session nor the number of
  rows of the table.
\<close>

theorem mark_attendance_twice:
  assumes keys: "distinct (map attendance_pk (attendance_table db))"
    and fresh: "next_id db \<notin> set (map attendance_pk (attendance_table db))"
    and s: "get_object_or_404 (session_table db) session_pk (data_session_id d1) = Inr s"
    and st: "get_object_or_404 (student_table db) student_pk (data_student_id d1) = Inr st"
    and ok: "fst (mark_attendance db u1 d1) = Response_success k c"
    and same: "data_session_id d2 = data_session_id d1 \<and> data_student_id d2 = data_student_id d1"
  shows "fst (mark_attendance (snd (mark_attendance db u1 d1)) u2 d2) = Response_success k False
    \<and> length (pair_records (snd (mark_attendance db u1 d1)) s st) = 1
    \<and> map status
         (pair_records (snd (mark_attendance (snd (mark_attendance db u1 d1)) u2 d2)) s st)
       = [data_status d2]
    \<and> length (session_records (snd (mark_attendance (snd (mark_attendance db u1 d1)) u2 d2)) s)
       = length (session_records (snd (mark_attendance db u1 d1)) s)
    \<and> length (attendance_table (snd (mark_attendance (snd (mark_attendance db u1 d1)) u2 d2)))
       = length (attendance_table (snd (mark_attendance db u1 d1)))"
proof -
  define dbA where "dbA = snd (mark_attendance db u1 d1)"
  from mark_attendance_success [OF s st ok]
  obtain a db1 where act: "session_is_active s"
    and enr: "student_pk st \<in> set (map student_pk (students (course s)))"
    and upd: "update_or_create db s st (mark_defaults u1 d1) = Inr (a, c, db1)"
    and pk: "attendance_pk a = k"
    and snd1: "snd (mark_attendance db u1 d1)
         = (if data_status d1 = Absent
            then snd (send_single_absentee_notification db1 a) else db1)"
    by blast
  note first = update_or_create_mark [OF keys fresh upd]
  have tabA: "attendance_table dbA = attendance_table db1"
    and sesA: "session_table dbA = session_table db"
    and stuA: "student_table dbA = student_table db"
    unfolding dbA_def snd1 after_notification using first(4,5) by simp_all
  have pairA: "pair_records dbA s st = [a]"
    using pair_records_cong [OF tabA] first(1) by simp
  have keysA: "distinct (map attendance_pk (attendance_table dbA))"
    using first(3) tabA by simp
  have sA: "get_object_or_404 (session_table dbA) session_pk (data_session_id d2) = Inr s"
    and stA: "get_object_or_404 (student_table dbA) student_pk (data_student_id d2) = Inr st"
    using s st same sesA stuA by simp_all
  have updA: "update_or_create dbA s st (mark_defaults u2 d2)
      = Inr (mark_defaults u2 d2 a, False, save_attendance dbA (mark_defaults u2 d2 a))"
    by (rule update_or_create_update [OF pairA])
  note second = update_or_create_mark [OF keysA _ updA]
  have markA: "mark_attendance dbA u2 d2
      = (Response_success k False,
         if data_status d2 = Absent
         then snd (send_single_absentee_notification
                     (save_attendance dbA (mark_defaults u2 d2 a)) (mark_defaults u2 d2 a))
         else save_attendance dbA (mark_defaults u2 d2 a))"
    using mark_attendance_eligible [OF sA stA act enr, of u2] updA pk by simp
  define dbB where "dbB = snd (mark_attendance dbA u2 d2)"
  have tabB: "attendance_table dbB
      = attendance_table (save_attendance dbA (mark_defaults u2 d2 a))"
    unfolding dbB_def markA snd_conv after_notification by (rule refl)
  have pairB: "pair_records dbB s st = [mark_defaults u2 d2 a]"
    using pair_records_cong [OF tabB] second(1) pairA by simp
  have "fst (mark_attendance dbA u2 d2) = Response_success k False"
    by (simp add: markA)
  moreover have "length (pair_records dbA s st) = 1"
    by (simp add: pairA)
  moreover have "map status (pair_records dbB s st) = [data_status d2]"
    by (simp add: pairB)
  moreover have "length (session_records dbB s) = length (session_records dbA s)"
    using session_records_cong [OF tabB] second(6) pairA by simp
  moreover have "length (attendance_table dbB) = length (attendance_table dbA)"
    using tabB second(7) pairA by simp
  ultimately show ?thesis
    unfolding dbB_def dbA_def by blast
qed


lemma campus_lookups:
  "get_object_or_404 (session_table (campus_database s rs)) session_pk (session_pk s) = Inr s"
  "get_object_or_404 (student_table (campus_database s rs)) student_pk 7 = Inr (sample_student 7)"
  "get_object_or_404 (student_table (campus_database s rs)) student_pk 8 = Inr (sample_student 8)"
  by (simp_all add: get_object_or_404_def campus_database_def sample_student_def)

lemma sample_mark_fields [simp]:
  "data_session_id (sample_mark sid st) = 3"
  "data_student_id (sample_mark sid st) = sid"
  "data_status (sample_mark sid st) = st"
  by (simp_all add: sample_mark_def)

lemma sample_session_at_fields [simp]:
  "session_pk (sample_session_at k) = k"
  "session_is_active (sample_session_at k)"
  "map student_pk (students (course (sample_session_at k))) = [7]"
  by (simp_all add: sample_session_at_def sample_course_def sample_student_def)

lemma campus_first_mark:
  "fst (mark_attendance (campus_database (sample_session_at 3) []) 1 (sample_mark 7 Present))
   = Response_success 1000 True"
proof -
  have "pair_records (campus_database (sample_session_at 3) []) (sample_session_at 3)
          (sample_student 7) = []"
    by (simp add: pair_records_def campus_database_def)
  from update_or_create_create [OF this]
    mark_attendance_eligible [of "campus_database (sample_session_at 3) []"
      "sample_mark 7 Present" "sample_session_at 3" "sample_student 7" 1]
    campus_lookups [of "sample_session_at 3" "[]"]
  show ?thesis
    by (simp add: campus_database_def sample_student_def)
qed

theorem mark_attendance_twice_witness:
  "distinct (map attendance_pk (attendance_table (campus_database (sample_session_at 3) [])))
   \<and> next_id (campus_database (sample_session_at 3) [])
       \<notin> set (map attendance_pk (attendance_table (campus_database (sample_session_at 3) [])))
   \<and> fst (mark_attendance (campus_database (sample_session_at 3) []) 1 (sample_mark 7 Present))
       = Response_success 1000 True
   \<and> fst (mark_attendance
        (snd (mark_attendance (campus_database (sample_session_at 3) []) 1
                (sample_mark 7 Present)))
        2 (sample_mark 7 Absent))
      = Response_success 1000 False
   \<and> map status
        (pair_records
           (snd (mark_attendance
              (snd (mark_attendance (campus_database (sample_session_at 3) []) 1
                      (sample_mark 7 Present)))
              2 (sample_mark 7 Absent)))
           (sample_session_at 3) (sample_student 7))
      = [Absent]"
proof -
  have keys: "distinct (map attendance_pk
      (attendance_table (campus_database (sample_session_at 3) [])))"
    by (simp add: campus_database_def)
  have fresh: "next_id (campus_database (sample_session_at 3) [])
       \<notin> set (map attendance_pk (attendance_table (campus_database (sample_session_at 3) [])))"
    by (simp add: campus_database_def)
  have s: "get_object_or_404 (session_table (campus_database (sample_session_at 3) []))
      session_pk (data_session_id (sample_mark 7 Present)) = Inr (sample_session_at 3)"
    using campus_lookups(1) [of "sample_session_at 3" "[]"] by simp
  have st: "get_object_or_404 (student_table (campus_database (sample_session_at 3) []))
      student_pk (data_student_id (sample_mark 7 Present)) = Inr (sample_student 7)"
    using campus_lookups(2) [of "sample_session_at 3" "[]"] by simp
  have same: "data_session_id (sample_mark 7 Absent) = data_session_id (sample_mark 7 Present)
      \<and> data_student_id (sample_mark 7 Absent) = data_student_id (sample_mark 7 Present)"
    by simp
  from mark_attendance_twice [OF keys fresh s st campus_first_mark same, of 2]
    keys fresh campus_first_mark
  show ?thesis
    by simp
qed

text \<open>
  Claim C6.  For a session and a student that exist, \<^verbatim>\<open>mark_attendance\<close> answers 400
  \<^verbatim>\<open>'This attendance session is not active'\<close> (SessionNotActive) when the session is not
  active, and 403 \<^verbatim>\<open>'Student is not enrolled in this course'\<close> (StudentNotEnrolled) when
  the session is active and the student is not enrolled in its course; the activity of
  the session is tested first.  On either failure the database is unchanged.  When the
  session is active and the student is enrolled the check succeeds and, the pair having
  at most one row, the mark succeeds.
\<close>

theorem mark_attendance_eligibility:
  assumes s: "get_object_or_404 (session_table db) session_pk (data_session_id d) = Inr s"
    and st: "get_object_or_404 (student_table db) student_pk (data_student_id d) = Inr st"
  shows "(\<not> session_is_active s \<longrightarrow>
            mark_attendance db u d
            = (Response_error 400 ''This attendance session is not active'', db))
    \<and> (session_is_active s \<and> student_pk st \<notin> set (map student_pk (students (course s))) \<longrightarrow>
            mark_attendance db u d
            = (Response_error 403 ''Student is not enrolled in this course'', db))
    \<and> (session_is_active s \<and> student_pk st \<in> set (map student_pk (students (course s)))
        \<and> length (pair_records db s st) \<le> 1 \<longrightarrow>
            fst (mark_attendance db u d)
            = Response_success
                (case pair_records db s st of [] \<Rightarrow> next_id db | r # _ \<Rightarrow> attendance_pk r)
                (pair_records db s st = []))"
proof (intro conjI impI)
  assume "\<not> session_is_active s"
  then show "mark_attendance db u d
            = (Response_error 400 ''This attendance session is not active'', db)"
    by (simp add: mark_attendance_def s st)
next
  assume "session_is_active s \<and> student_pk st \<notin> set (map student_pk (students (course s)))"
  then show "mark_attendance db u d
            = (Response_error 403 ''Student is not enrolled in this course'', db)"
    by (simp add: mark_attendance_def s st)
next
  assume h: "session_is_active s \<and> student_pk st \<in> set (map student_pk (students (course s)))
        \<and> length (pair_records db s st) \<le> 1"
  then have act: "session_is_active s"
    and enr: "student_pk st \<in> set (map student_pk (students (course s)))"
    and one: "length (pair_records db s st) \<le> 1"
    by simp_all
  note unfold = mark_attendance_eligible [OF s st act enr, of u]
  show "fst (mark_attendance db u d)
            = Response_success
                (case pair_records db s st of [] \<Rightarrow> next_id db | r # _ \<Rightarrow> attendance_pk r)
                (pair_records db s st = [])"
  proof (cases "pair_records db s st")
    case Nil
    from update_or_create_create [OF Nil, of "mark_defaults u d"] unfold Nil show ?thesis
      by simp
  next
    case (Cons r rs)
    with one have single: "pair_records db s st = [r]"
      by simp
    from update_or_create_update [OF single, of "mark_defaults u d"] unfold single show ?thesis
      by simp
  qed
qed


theorem mark_attendance_eligibility_witness:
  "\<not> session_is_active ((sample_session_at 3)\<lparr>session_is_active := False\<rparr>)
   \<and> mark_attendance
        (campus_database ((sample_session_at 3)\<lparr>session_is_active := False\<rparr>) [])
        1 (sample_mark 7 Present)
      = (Response_error 400 ''This attendance session is not active'',
         campus_database ((sample_session_at 3)\<lparr>session_is_active := False\<rparr>) [])
   \<and> session_is_active (sample_session_at 3)
   \<and> student_pk (sample_student 8)
       \<notin> set (map student_pk (students (course (sample_session_at 3))))
   \<and> mark_attendance (campus_database (sample_session_at 3) []) 1 (sample_mark 8 Present)
      = (Response_error 403 ''Student is not enrolled in this course'',
         campus_database (sample_session_at 3) [])
   \<and> student_pk (sample_student 7)
       \<in> set (map student_pk (students (course (sample_session_at 3))))
   \<and> length (pair_records (campus_database (sample_session_at 3) []) (sample_session_at 3)
        (sample_student 7)) \<le> 1
   \<and> fst (mark_attendance (campus_database (sample_session_at 3) []) 1 (sample_mark 7 Present))
      = Response_success 1000 True"
proof -
  let ?closed = "(sample_session_at 3)\<lparr>session_is_active := False\<rparr>"
  have inactive: "\<not> session_is_active ?closed"
    by simp
  have s0: "get_object_or_404 (session_table (campus_database ?closed []))
      session_pk (data_session_id (sample_mark 7 Present)) = Inr ?closed"
    using campus_lookups(1) [of ?closed "[]"] by simp
  have st0: "get_object_or_404 (student_table (campus_database ?closed []))
      student_pk (data_student_id (sample_mark 7 Present)) = Inr (sample_student 7)"
    using campus_lookups(2) [of ?closed "[]"] by simp
  have s: "get_object_or_404 (session_table (campus_database (sample_session_at 3) []))
      session_pk (data_session_id (sample_mark sid Present)) = Inr (sample_session_at 3)" for sid
    using campus_lookups(1) [of "sample_session_at 3" "[]"] by simp
  have st7: "get_object_or_404 (student_table (campus_database (sample_session_at 3) []))
      student_pk (data_student_id (sample_mark 7 Present)) = Inr (sample_student 7)"
    using campus_lookups(2) [of "sample_session_at 3" "[]"] by simp
  have st8: "get_object_or_404 (student_table (campus_database (sample_session_at 3) []))
      student_pk (data_student_id (sample_mark 8 Present)) = Inr (sample_student 8)"
    using campus_lookups(3) [of "sample_session_at 3" "[]"] by simp
  have active: "session_is_active (sample_session_at 3)"
    by simp
  have out: "student_pk (sample_student 8)
       \<notin> set (map student_pk (students (course (sample_session_at 3))))"
    by (simp add: sample_student_def)
  have enr: "student_pk (sample_student 7)
       \<in> set (map student_pk (students (course (sample_session_at 3))))"
    by (simp add: sample_student_def)
  have none: "pair_records (campus_database (sample_session_at 3) []) (sample_session_at 3)
        (sample_student 7) = []"
    by (simp add: pair_records_def campus_database_def)
  note e0 = mark_attendance_eligibility [OF s0 st0, of 1]
  note e8 = mark_attendance_eligibility [OF s st8, of 1]
  note e7 = mark_attendance_eligibility [OF s st7, of 1]
  from e0 inactive have c1: "mark_attendance (campus_database ?closed []) 1 (sample_mark 7 Present)
      = (Response_error 400 ''This attendance session is not active'',
         campus_database ?closed [])"
    by blast
  from e8 active out have c2: "mark_attendance (campus_database (sample_session_at 3) []) 1
        (sample_mark 8 Present)
      = (Response_error 403 ''Student is not enrolled in this course'',
         campus_database (sample_session_at 3) [])"
    by blast
  from e7 active enr none have c3: "fst (mark_attendance (campus_database (sample_session_at 3) [])
        1 (sample_mark 7 Present))
      = Response_success 1000 True"
    by (simp add: campus_database_def)
  from inactive c1 active out c2 enr none c3 show ?thesis
    by simp
qed

section \<open>Properties of the Absentee Resolver: automatic marking\<close>

lemma auto_absent_rows_Nil [simp]: "auto_absent_rows s user k [] = []"
  by (simp add: auto_absent_rows_def)

lemma auto_absent_rows_Cons:
  "auto_absent_rows s user k (st # sts)
   = auto_absent_fields user (new_attendance k s st) # auto_absent_rows s user (Suc k) sts"
  by (simp add: auto_absent_rows_def upt_rec auto_absent_fields_def new_attendance_def)

lemma pair_records_append_row:
  "pair_records (db\<lparr>attendance_table := attendance_table db @ [r], next_id := n\<rparr>) s st
   = pair_records db s st @ (if in_pair s st r then [r] else [])"
  by (simp add: pair_records_def in_pair_def)

lemma in_pair_auto_absent:
  "in_pair s st' (auto_absent_fields user (new_attendance k s st))
   \<longleftrightarrow> student_pk st = student_pk st'"
  by (simp add: in_pair_def auto_absent_fields_def new_attendance_def)

lemma auto_mark_loop_result:
  assumes "distinct (map student_pk sts)"
    and "\<And>st. st \<in> set sts \<Longrightarrow> pair_records db s st = []"
  shows "auto_mark_loop db s user count sts
    = Inr (count + length sts,
           db\<lparr>attendance_table := attendance_table db @ auto_absent_rows s user (next_id db) sts,
              next_id := next_id db + length sts\<rparr>)"
  using assms
proof (induction sts arbitrary: db count)
  case Nil
  then show ?case by simp
next
  case (Cons st sts)
  let ?obj = "auto_absent_fields user (new_attendance (next_id db) s st)"
  let ?db1 = "db\<lparr>attendance_table := attendance_table db @ [?obj], next_id := Suc (next_id db)\<rparr>"
  have create: "objects_create db s st (auto_absent_fields user) = Inr (?obj, ?db1)"
    using Cons.prems(2) [of st] by (simp add: objects_create_def Let_def)
  have rest: "pair_records ?db1 s st' = []" if "st' \<in> set sts" for st'
  proof -
    from that Cons.prems(1) have "student_pk st \<noteq> student_pk st'"
      by auto
    with Cons.prems(2) [of st'] that show ?thesis
      by (simp add: pair_records_append_row in_pair_auto_absent)
  qed
  from Cons.prems(1) have d: "distinct (map student_pk sts)"
    by simp
  have "auto_mark_loop ?db1 s user (count + 1) sts
    = Inr (count + 1 + length sts,
           ?db1\<lparr>attendance_table := attendance_table ?db1
                   @ auto_absent_rows s user (next_id ?db1) sts,
                 next_id := next_id ?db1 + length sts\<rparr>)"
    using d rest by (rule Cons.IH)
  with create show ?case
    by (simp add: auto_absent_rows_Cons)
qed

lemma unmarked_no_records:
  "unmarked db s = filter (\<lambda>st. pair_records db s st = []) (enrolled_active s)"
proof -
  have "student_pk st \<notin> set (map (\<lambda>r. student_pk (student r)) (session_records db s))
        \<longleftrightarrow> pair_records db s st = []" for st
    by (force simp: session_records_def pair_records_def filter_empty_conv)
  then show ?thesis
    by (simp add: unmarked_def Let_def)
qed


lemma auto_absent_rows_students: "map student (auto_absent_rows s user k sts) = sts"
  by (induction sts arbitrary: k)
     (simp_all add: auto_absent_rows_Cons auto_absent_fields_def new_attendance_def)

lemma auto_absent_rows_session:
  "r \<in> set (auto_absent_rows s user k sts) \<Longrightarrow> session r = s"
  by (induction sts arbitrary: k)
     (auto simp: auto_absent_rows_Cons auto_absent_fields_def new_attendance_def)

lemma unmarked_after_auto_mark:
  "unmarked (db\<lparr>attendance_table :=
                  attendance_table db @ auto_absent_rows s user (next_id db) (unmarked db s),
                next_id := n\<rparr>) s = []"
proof -
  let ?db' = "db\<lparr>attendance_table :=
                  attendance_table db @ auto_absent_rows s user (next_id db) (unmarked db s),
                next_id := n\<rparr>"
  have "pair_records ?db' s st \<noteq> []" if "st \<in> set (enrolled_active s)" for st
  proof (cases "pair_records db s st = []")
    case True
    with that have "st \<in> set (unmarked db s)"
      by (simp add: unmarked_no_records)
    then have "st \<in> set (map student (auto_absent_rows s user (next_id db) (unmarked db s)))"
      by (simp only: auto_absent_rows_students)
    then obtain r where r: "r \<in> set (auto_absent_rows s user (next_id db) (unmarked db s))"
      and "student r = st"
      by auto
    moreover from r have "session r = s"
      by (rule auto_absent_rows_session)
    ultimately have "r \<in> set (pair_records ?db' s st)"
      by (simp add: pair_records_def)
    then show ?thesis
      by auto
  next
    case False
    then show ?thesis
      by (simp add: pair_records_def)
  qed
  then show ?thesis
    by (simp add: unmarked_no_records [of ?db'] filter_empty_conv)
qed

lemma unmarked_explicit:
  "unmarked db s
   = filter (\<lambda>st. student_is_active st
                \<and> filter (\<lambda>r. session_pk (session r) = session_pk s
                               \<and> student_pk (student r) = student_pk st)
                      (attendance_table db) = [])
       (students (course s))"
  by (simp add: unmarked_no_records enrolled_active_def pair_records_def conj_commute)

text \<open>
  Claim C3.  The enrolment of the course holds each student once.  The students that
  \<^verbatim>\<open>auto_mark_absentees\<close> marks are exactly the students of the enrolment that are
  active (\<open>student_is_active\<close>) and have no Attendance row in the session, whatever
  the status of the rows of the others.  The call returns their number and appends to
  the table, for each of them, one row with status absent, verification method manual
  and the notes \<^verbatim>\<open>'Auto-marked as absent'\<close>; the rows that existed stay as they were.  A
  second call on the resulting database marks zero students and changes nothing.
\<close>

theorem auto_mark_absentees_top_up:
  assumes "distinct (map student_pk (students (course s)))"
  shows "unmarked db s
       = filter (\<lambda>st. student_is_active st
                    \<and> filter (\<lambda>r. session_pk (session r) = session_pk s
                                   \<and> student_pk (student r) = student_pk st)
                          (attendance_table db) = [])
           (students (course s))
    \<and> auto_mark_absentees db s user
       = Inr (length (unmarked db s),
              db\<lparr>attendance_table :=
                    attendance_table db
                    @ auto_absent_rows s user (next_id db) (unmarked db s),
                  next_id := next_id db + length (unmarked db s)\<rparr>)
    \<and> auto_mark_absentees
         (db\<lparr>attendance_table :=
               attendance_table db @ auto_absent_rows s user (next_id db) (unmarked db s),
             next_id := next_id db + length (unmarked db s)\<rparr>) s user'
       = Inr (0, db\<lparr>attendance_table :=
                     attendance_table db
                     @ auto_absent_rows s user (next_id db) (unmarked db s),
                   next_id := next_id db + length (unmarked db s)\<rparr>)"
proof (intro conjI)
  show "unmarked db s
       = filter (\<lambda>st. student_is_active st
                    \<and> filter (\<lambda>r. session_pk (session r) = session_pk s
                                   \<and> student_pk (student r) = student_pk st)
                          (attendance_table db) = [])
           (students (course s))"
    by (rule unmarked_explicit)
  have "distinct (map student_pk (unmarked db s))"
    using assms by (simp add: unmarked_def enrolled_active_def Let_def distinct_map_filter)
  moreover have "pair_records db s st = []" if "st \<in> set (unmarked db s)" for st
    using that by (simp add: unmarked_no_records)
  ultimately show "auto_mark_absentees db s user
       = Inr (length (unmarked db s),
              db\<lparr>attendance_table :=
                    attendance_table db
                    @ auto_absent_rows s user (next_id db) (unmarked db s),
                  next_id := next_id db + length (unmarked db s)\<rparr>)"
    using auto_mark_loop_result [of "unmarked db s" db s user 0]
    by (simp add: auto_mark_absentees_def)
  show "auto_mark_absentees
         (db\<lparr>attendance_table :=
               attendance_table db @ auto_absent_rows s user (next_id db) (unmarked db s),
             next_id := next_id db + length (unmarked db s)\<rparr>) s user'
       = Inr (0, db\<lparr>attendance_table :=
                     attendance_table db
                     @ auto_absent_rows s user (next_id db) (unmarked db s),
                   next_id := next_id db + length (unmarked db s)\<rparr>)"
    by (simp add: auto_mark_absentees_def unmarked_after_auto_mark)
qed

lemma scenario_unmarked: "unmarked scenario_database scenario_session = [sample_student 8]"
  by (simp add: unmarked_def Let_def session_records_def enrolled_active_def
      scenario_database_def scenario_session_def campus_database_def sample_session_def
      sample_course_def sample_student_def sample_attendance_def inactive_student_def)

theorem auto_mark_absentees_top_up_witness:
  "distinct (map student_pk (students (course scenario_session)))
   \<and> map student_is_active (students (course scenario_session)) = [True, True, False]
   \<and> map (\<lambda>r. student_pk (student r)) (attendance_table scenario_database) = [7]
   \<and> filter (\<lambda>st. student_is_active st
                 \<and> filter (\<lambda>r. session_pk (session r) = session_pk scenario_session
                                \<and> student_pk (student r) = student_pk st)
                       (attendance_table scenario_database) = [])
        (students (course scenario_session)) = [sample_student 8]
   \<and> auto_mark_absentees scenario_database scenario_session None
      = Inr (1, scenario_database
                  \<lparr>attendance_table :=
                     [(sample_attendance Present 7)\<lparr>session := scenario_session\<rparr>,
                      \<lparr>attendance_pk = 1000, session = scenario_session,
                       student = sample_student 8, status = Absent,
                       verification_method = Manual, marked_by = None,
                       face_confidence = None, location_lat = None, location_lng = None,
                       attendance_notes = ''Auto-marked as absent''\<rparr>],
                   next_id := 1001\<rparr>)
   \<and> auto_mark_absentees
        (scenario_database
           \<lparr>attendance_table :=
              [(sample_attendance Present 7)\<lparr>session := scenario_session\<rparr>,
               \<lparr>attendance_pk = 1000, session = scenario_session,
                student = sample_student 8, status = Absent,
                verification_method = Manual, marked_by = None,
                face_confidence = None, location_lat = None, location_lng = None,
                attendance_notes = ''Auto-marked as absent''\<rparr>],
            next_id := 1001\<rparr>)
        scenario_session None
      = Inr (0, scenario_database
                  \<lparr>attendance_table :=
                     [(sample_attendance Present 7)\<lparr>session := scenario_session\<rparr>,
                      \<lparr>attendance_pk = 1000, session = scenario_session,
                       student = sample_student 8, status = Absent,
                       verification_method = Manual, marked_by = None,
                       face_confidence = None, location_lat = None, location_lng = None,
                       attendance_notes = ''Auto-marked as absent''\<rparr>],
                   next_id := 1001\<rparr>)"
proof -
  have d: "distinct (map student_pk (students (course scenario_session)))"
    by (simp add: scenario_session_def sample_session_def sample_course_def sample_student_def
        inactive_student_def)
  have act: "map student_is_active (students (course scenario_session)) = [True, True, False]"
    by (simp add: scenario_session_def sample_session_def sample_course_def sample_student_def
        inactive_student_def)
  have tab: "attendance_table scenario_database
      = [(sample_attendance Present 7)\<lparr>session := scenario_session\<rparr>]"
    and nxt: "next_id scenario_database = 1000"
    by (simp_all add: scenario_database_def campus_database_def)
  have marked: "map (\<lambda>r. student_pk (student r)) (attendance_table scenario_database) = [7]"
    by (simp add: tab sample_attendance_def sample_student_def)
  have rows: "auto_absent_rows scenario_session None 1000 [sample_student 8]
      = [\<lparr>attendance_pk = 1000, session = scenario_session,
          student = sample_student 8, status = Absent,
          verification_method = Manual, marked_by = None,
          face_confidence = None, location_lat = None, location_lng = None,
          attendance_notes = ''Auto-marked as absent''\<rparr>]"
    by (simp add: auto_absent_rows_def)
  note top_up = auto_mark_absentees_top_up [OF d, of scenario_database None None]
  from top_up have explicit: "filter (\<lambda>st. student_is_active st
                 \<and> filter (\<lambda>r. session_pk (session r) = session_pk scenario_session
                                \<and> student_pk (student r) = student_pk st)
                       (attendance_table scenario_database) = [])
        (students (course scenario_session)) = [sample_student 8]"
    by (simp only: scenario_unmarked)
  from top_up d act marked explicit show ?thesis
    by (simp add: scenario_unmarked tab nxt rows)
qed

section \<open>Properties of the Absentee Resolver: low attendance\<close>

lemma low_attendance_loop_result:
  "low_attendance_loop db c threshold acc sts
   = acc @ map (\<lambda>st. (st, low_percentage db c st))
       (filter (\<lambda>st. 0 < length (low_records db c st) \<and> low_percentage db c st < threshold)
          sts)"
  by (induction sts arbitrary: acc) (simp_all add: Let_def low_percentage_def)

lemma send_low_attendance_warning_attendance [simp]:
  "attendance_table (snd (send_low_attendance_warning db st p th)) = attendance_table db"
  by (simp add: send_low_attendance_warning_def dispatcher_defs Let_def split: option.split)

lemma send_low_attendance_warning_length:
  "p < th \<Longrightarrow>
   length (notification_table (snd (send_low_attendance_warning db st p th)))
   = Suc (length (notification_table db))"
  by (simp add: send_low_attendance_warning_def dispatcher_defs Let_def split: option.split)

lemma student_records_cong:
  "attendance_table x = attendance_table y \<Longrightarrow> student_records x st = student_records y st"
  by (simp add: student_records_def)

lemma low_attendance_sweep_result:
  assumes "attendance_table db = tab"
  shows "fst (low_attendance_sweep db threshold k sts)
     = k + length (filter (\<lambda>st. 0 < length (filter (\<lambda>r. student_pk (student r) = student_pk st) tab)
                \<and> raw_percentage
                     (present_or_late (filter (\<lambda>r. student_pk (student r) = student_pk st) tab))
                     (length (filter (\<lambda>r. student_pk (student r) = student_pk st) tab))
                   < threshold) sts)
   \<and> length (notification_table (snd (low_attendance_sweep db threshold k sts)))
     = length (notification_table db)
       + length (filter (\<lambda>st. 0 < length (filter (\<lambda>r. student_pk (student r) = student_pk st) tab)
                \<and> raw_percentage
                     (present_or_late (filter (\<lambda>r. student_pk (student r) = student_pk st) tab))
                     (length (filter (\<lambda>r. student_pk (student r) = student_pk st) tab))
                   < threshold) sts)
   \<and> attendance_table (snd (low_attendance_sweep db threshold k sts)) = tab"
  using assms
proof (induction sts arbitrary: db k)
  case Nil
  then show ?case by simp
next
  case (Cons st sts)
  have recs: "student_records db st = filter (\<lambda>r. student_pk (student r) = student_pk st) tab"
    using Cons.prems by (simp add: student_records_def)
  show ?case
    using Cons.prems
    by (simp add: Let_def recs Cons.IH send_low_attendance_warning_length)
qed

lemma low_records_explicit:
  "low_records db c st
   = filter (\<lambda>r. student_pk (student r) = student_pk st
                \<and> (case c of None \<Rightarrow> True
                    | Some crs \<Rightarrow> course_pk (course (session r)) = course_pk crs))
       (attendance_table db)"
  by (cases c) (simp_all add: low_records_def student_records_def)

lemma low_percentage_explicit:
  "low_percentage db c st
   = float_mul
       (int_truediv
          (int (length (filter (\<lambda>r. status r = Present \<or> status r = Late)
                          (low_records db c st))))
          (int (length (low_records db c st)))) 100"
  by (simp add: low_percentage_def raw_percentage_def present_or_late_def)

lemma low_students_explicit:
  "low_students db c
   = filter (\<lambda>st. student_is_active st
                \<and> (case c of None \<Rightarrow> True
                    | Some crs \<Rightarrow> student_pk st \<in> set (map student_pk (students crs))))
       (student_table db)"
  by (cases c) (simp_all add: low_students_def)

lemma present_or_late_le: "present_or_late rs \<le> length rs"
  by (simp add: present_or_late_def)

lemma sweep_explicit:
  "fst (check_and_send_low_attendance_warnings db)
   = length
       (filter (\<lambda>st. 0 < length (filter (\<lambda>r. student_pk (student r) = student_pk st)
                                   (attendance_table db))
                    \<and> float_mul
                        (int_truediv
                           (int (length (filter (\<lambda>r. status r = Present \<or> status r = Late)
                                           (filter (\<lambda>r. student_pk (student r) = student_pk st)
                                              (attendance_table db)))))
                           (int (length (filter (\<lambda>r. student_pk (student r) = student_pk st)
                                           (attendance_table db))))) 100 < 75)
          (filter student_is_active (student_table db)))"
  using low_attendance_sweep_result [OF refl, of db 75 0
      "filter student_is_active (student_table db)"]
  by (simp add: check_and_send_low_attendance_warnings_def Let_def raw_percentage_def
      present_or_late_def)

text \<open>
Claim C7, amended. \<open>check_low_attendance_students\<close> considers the active students (with a
course: the active students enrolled in it) and, for each of them, the student's Attendance
records (with a course: those whose session belongs to it). The result lists, in the order of
the student table, exactly the considered students that have at least one such record and whose
percentage, computed in double precision as \<open>(present_or_late / total) * 100\<close>, is strictly
below the threshold, each paired with that percentage. A student with no record in scope is
never listed, whatever the threshold. For the default threshold 75 and up to \<open>2 ^ 50\<close> records
the double comparison agrees with the exact one, \<open>4 * present_or_late < 3 * total\<close>. The
sweep \<open>check_and_send_low_attendance_warnings\<close> warns exactly the active students with a record
and a percentage below \<open>attendance_threshold\<close>, which is 75.
\<close>

theorem check_low_attendance_students_result:
  "(let records = (\<lambda>st. filter (\<lambda>r. student_pk (student r) = student_pk st
                \<and> (case c of None \<Rightarrow> True
                    | Some crs \<Rightarrow> course_pk (course (session r)) = course_pk crs))
              (attendance_table db));
        pct = (\<lambda>st. float_mul
                 (int_truediv
                    (int (length (filter (\<lambda>r. status r = Present \<or> status r = Late)
                                    (records st))))
                    (int (length (records st)))) 100);
        considered = filter (\<lambda>st. student_is_active st
                \<and> (case c of None \<Rightarrow> True
                    | Some crs \<Rightarrow> student_pk st \<in> set (map student_pk (students crs))))
              (student_table db)
    in check_low_attendance_students db threshold c
         = map (\<lambda>st. (st, pct st))
             (filter (\<lambda>st. 0 < length (records st) \<and> pct st < threshold) considered)
       \<and> (length (records st) = 0
            \<longrightarrow> st \<notin> fst ` set (check_low_attendance_students db threshold c))
       \<and> (st \<in> set considered \<and> 0 < length (records st)
            \<longrightarrow> ((st, pct st) \<in> set (check_low_attendance_students db threshold c)
                 \<longleftrightarrow> pct st < threshold))
       \<and> (0 < length (records st) \<and> length (records st) \<le> 2 ^ 50
            \<longrightarrow> (pct st < 75
                 \<longleftrightarrow> 4 * length (filter (\<lambda>r. status r = Present \<or> status r = Late)
                                   (records st))
                     < 3 * length (records st))))
   \<and> fst (check_and_send_low_attendance_warnings db)
       = length
           (filter (\<lambda>st. 0 < length (filter (\<lambda>r. student_pk (student r) = student_pk st)
                                       (attendance_table db))
                        \<and> float_mul
                            (int_truediv
                               (int (length (filter (\<lambda>r. status r = Present \<or> status r = Late)
                                               (filter (\<lambda>r. student_pk (student r) = student_pk st)
                                                  (attendance_table db)))))
                               (int (length (filter (\<lambda>r. student_pk (student r) = student_pk st)
                                               (attendance_table db))))) 100 < 75)
              (filter student_is_active (student_table db)))
   \<and> attendance_threshold = 75"
proof -
  have res: "check_low_attendance_students db threshold c
     = map (\<lambda>st. (st, low_percentage db c st))
         (filter (\<lambda>st. 0 < length (low_records db c st) \<and> low_percentage db c st < threshold)
            (low_students db c))"
    by (simp add: check_low_attendance_students_def low_attendance_loop_result)
  have zero: "st \<notin> fst ` set (check_low_attendance_students db threshold c)"
    if "length (low_records db c st) = 0"
    using that unfolding res by (auto simp: image_iff)
  have iff: "(st, low_percentage db c st) \<in> set (check_low_attendance_students db threshold c)
             \<longleftrightarrow> low_percentage db c st < threshold"
    if "st \<in> set (low_students db c) \<and> 0 < length (low_records db c st)"
    using that unfolding res by auto
  have exact: "low_percentage db c st < 75
      \<longleftrightarrow> 4 * present_or_late (low_records db c st) < 3 * length (low_records db c st)"
    if "0 < length (low_records db c st) \<and> length (low_records db c st) \<le> 2 ^ 50"
    unfolding low_percentage_def
    using that by (intro raw_percentage_below_75) (simp_all add: present_or_late_le)
  have main: "check_low_attendance_students db threshold c
         = map (\<lambda>st. (st, low_percentage db c st))
             (filter (\<lambda>st. 0 < length (low_records db c st)
                          \<and> low_percentage db c st < threshold) (low_students db c))
       \<and> (length (low_records db c st) = 0
            \<longrightarrow> st \<notin> fst ` set (check_low_attendance_students db threshold c))
       \<and> (st \<in> set (low_students db c) \<and> 0 < length (low_records db c st)
            \<longrightarrow> ((st, low_percentage db c st)
                   \<in> set (check_low_attendance_students db threshold c)
                 \<longleftrightarrow> low_percentage db c st < threshold))
       \<and> (0 < length (low_records db c st) \<and> length (low_records db c st) \<le> 2 ^ 50
            \<longrightarrow> (low_percentage db c st < 75
                 \<longleftrightarrow> 4 * present_or_late (low_records db c st)
                     < 3 * length (low_records db c st)))"
    using res zero iff exact by blast
  note explicit = main [unfolded low_percentage_explicit present_or_late_def
      low_records_explicit low_students_explicit]
  have thr: "attendance_threshold = 75"
    by (simp add: attendance_threshold_def)
  show ?thesis
    unfolding Let_def by (rule conjI [OF explicit conjI [OF sweep_explicit thr]])
qed


text \<open>Values on the sample data.\<close>

lemma raw_percentage_values:
  "raw_percentage 1 4 = 25"
  "raw_percentage 9 12 = 75"
  "raw_percentage 23 80 = 8092405580431359 / 281474976710656"
  by code_simp+

lemma course_history_simps:
  "length (course_history stu crs st i n) = n"
  "filter (\<lambda>r. student_pk (student r) = k) (course_history stu crs st i n)
   = (if student_pk stu = k then course_history stu crs st i n else [])"
  "filter (\<lambda>r. course_pk (course (session r)) = j) (course_history stu crs st i n)
   = (if course_pk crs = j then course_history stu crs st i n else [])"
  "present_or_late (course_history stu crs st i n)
   = (if st = Present \<or> st = Late then n else 0)"
  by (simp_all add: course_history_def present_or_late_def filter_map o_def)

lemma course_history_Nil [simp]: "course_history stu crs st i n = [] \<longleftrightarrow> n = 0"
  by (auto simp: course_history_def)

lemma present_or_late_append:
  "present_or_late (xs @ ys) = present_or_late xs + present_or_late ys"
  by (simp add: present_or_late_def)

lemma sample_keys:
  "student_pk (sample_student i) = i" "student_pk (inactive_student i) = i"
  "student_is_active (sample_student i)" "\<not> student_is_active (inactive_student i)"
  "course_pk first_course = 1" "course_pk second_course = 2"
  "map student_pk (students first_course) = [7, 8, 9]"
  by (simp_all add: sample_student_def inactive_student_def first_course_def second_course_def)

lemma history_low_students:
  "low_students history_database None = [sample_student 7, sample_student 8]"
  "low_students history_database (Some first_course) = [sample_student 7, sample_student 8]"
  by (simp_all add: low_students_def history_database_def sample_keys)

lemma history_low_records:
  "low_records history_database (Some first_course) (sample_student 7)
     = course_history (sample_student 7) first_course Present 0 1
       @ course_history (sample_student 7) first_course Absent 1 3"
  "low_records history_database None (sample_student 7)
     = course_history (sample_student 7) first_course Present 0 1
       @ course_history (sample_student 7) first_course Absent 1 3
       @ course_history (sample_student 7) second_course Present 4 8"
  "low_records history_database c (sample_student 8) = []"
  by (cases c; simp add: low_records_def student_records_def history_database_def
      course_history_simps sample_keys)+

lemma history_low_percentage:
  "low_percentage history_database (Some first_course) (sample_student 7) = 25"
  "low_percentage history_database None (sample_student 7) = 75"
proof -
  have "low_percentage history_database (Some first_course) (sample_student 7)
      = raw_percentage 1 4"
    by (simp add: low_percentage_def history_low_records present_or_late_append
        course_history_simps)
  then show "low_percentage history_database (Some first_course) (sample_student 7) = 25"
    by (simp only: raw_percentage_values)
  have "low_percentage history_database None (sample_student 7) = raw_percentage 9 12"
    by (simp add: low_percentage_def history_low_records present_or_late_append
        course_history_simps)
  then show "low_percentage history_database None (sample_student 7) = 75"
    by (simp only: raw_percentage_values)
qed

lemma check_low_attendance_students_filter:
  "check_low_attendance_students db threshold c
     = map (\<lambda>st. (st, low_percentage db c st))
         (filter (\<lambda>st. 0 < length (low_records db c st) \<and> low_percentage db c st < threshold)
            (low_students db c))"
  by (simp add: check_low_attendance_students_def low_attendance_loop_result)

lemma history_low_attendance:
  "check_low_attendance_students history_database 75 (Some first_course)
     = [(sample_student 7, 25)]"
  "check_low_attendance_students history_database 75 None = []"
  by (simp_all add: check_low_attendance_students_filter history_low_students
      history_low_records history_low_percentage course_history_simps)


theorem check_low_attendance_students_result_witness:
  "length (low_records history_database (Some first_course) (sample_student 8)) = 0
   \<and> sample_student 8
       \<notin> fst ` set (check_low_attendance_students history_database 75 (Some first_course))
   \<and> sample_student 7 \<in> set (low_students history_database (Some first_course))
   \<and> length (low_records history_database (Some first_course) (sample_student 7)) = 4
   \<and> present_or_late (low_records history_database (Some first_course) (sample_student 7)) = 1
   \<and> low_percentage history_database (Some first_course) (sample_student 7) = 25
   \<and> (sample_student 7, 25)
       \<in> set (check_low_attendance_students history_database 75 (Some first_course))
   \<and> check_low_attendance_students history_database 75 (Some first_course)
       = [(sample_student 7, 25)]
   \<and> check_low_attendance_students history_database 75 None = []
   \<and> inactive_student 9 \<in> set (student_table history_database)
   \<and> length (low_records history_database (Some first_course) (inactive_student 9)) = 2
   \<and> 4 * present_or_late (low_records history_database (Some first_course) (sample_student 7))
       < 3 * length (low_records history_database (Some first_course) (sample_student 7))"
proof -
  note r8 = check_low_attendance_students_result
    [where db = history_database and c = "Some first_course" and threshold = 75
       and st = "sample_student 8", unfolded Let_def]
  note r7 = check_low_attendance_students_result
    [where db = history_database and c = "Some first_course" and threshold = 75
       and st = "sample_student 7", unfolded Let_def]
  note f8 = r8 [THEN conjunct1, THEN conjunct2, THEN conjunct1,
      unfolded low_records_explicit [symmetric]]
  note f7 = r7 [THEN conjunct1, THEN conjunct2, THEN conjunct2, THEN conjunct1,
      unfolded low_records_explicit [symmetric] low_percentage_explicit [symmetric]
        low_students_explicit [symmetric]]
  note e7 = r7 [THEN conjunct1, THEN conjunct2, THEN conjunct2, THEN conjunct2,
      unfolded low_records_explicit [symmetric] low_percentage_explicit [symmetric],
      unfolded present_or_late_def [symmetric]]
  have none: "length (low_records history_database (Some first_course) (sample_student 8)) = 0"
    by (simp add: history_low_records)
  with f8 have c8: "sample_student 8
       \<notin> fst ` set (check_low_attendance_students history_database 75 (Some first_course))"
    by blast
  have in7: "sample_student 7 \<in> set (low_students history_database (Some first_course))"
    by (simp add: history_low_students)
  have len7: "length (low_records history_database (Some first_course) (sample_student 7)) = 4"
    by (simp add: history_low_records course_history_simps)
  have pl7: "present_or_late
      (low_records history_database (Some first_course) (sample_student 7)) = 1"
    by (simp add: history_low_records present_or_late_append course_history_simps)
  note pct7 = history_low_percentage(1)
  from f7 in7 len7 pct7 have c7: "(sample_student 7, 25)
       \<in> set (check_low_attendance_students history_database 75 (Some first_course))"
    by simp
  have in9: "inactive_student 9 \<in> set (student_table history_database)"
    by (simp add: history_database_def)
  have len9: "length (low_records history_database (Some first_course) (inactive_student 9)) = 2"
    by (simp add: low_records_def student_records_def history_database_def
        course_history_simps sample_keys)
  from e7 len7 pct7
  have ex7: "4 * present_or_late
        (low_records history_database (Some first_course) (sample_student 7))
      < 3 * length (low_records history_database (Some first_course) (sample_student 7))"
    by simp
  from none c8 in7 len7 pl7 pct7 c7 history_low_attendance in9 len9 ex7 show ?thesis
    by blast
qed

lemma tie_low_records:
  "low_records tie_database None (sample_student 7)
     = sample_history Present 0 23 @ sample_history Absent 23 57"
  "low_records tie_database None (sample_student 8) = []"
  "low_students tie_database None = [sample_student 7, sample_student 8]"
  by (simp_all add: low_records_def low_students_def student_records_def tie_database_def
      campus_database_def sample_history_def sample_student_def filter_map o_def)

lemma present_or_late_sample_history:
  "present_or_late (sample_history st i n) = (if st = Present \<or> st = Late then n else 0)"
  by (simp add: present_or_late_def sample_history_def filter_map o_def)

lemma sample_history_Nil [simp]: "sample_history st i n = [] \<longleftrightarrow> n = 0"
  by (auto simp: sample_history_def)

text \<open>
Claim C7, as stated for every threshold, fails. A student with 23 present records out of 80
has an exact percentage of 28.75, which is not strictly below the threshold 28.75; the double
\<open>(23 / 80) * 100\<close> is 28.749999999999996, so the student is listed.
\<close>

theorem low_attendance_threshold_counterexample:
  "length (low_records tie_database None (sample_student 7)) = 80
   \<and> present_or_late (low_records tie_database None (sample_student 7)) = 23
   \<and> \<not> ((100 * 23 / 80 :: rat) < 115 / 4)
   \<and> check_low_attendance_students tie_database (115 / 4) None
       = [(sample_student 7, 8092405580431359 / 281474976710656)]"
proof (intro conjI)
  show len: "length (low_records tie_database None (sample_student 7)) = 80"
    by (simp add: tie_low_records length_sample_history)
  show pl: "present_or_late (low_records tie_database None (sample_student 7)) = 23"
    by (simp add: tie_low_records present_or_late_append present_or_late_sample_history)
  show "\<not> ((100 * 23 / 80 :: rat) < 115 / 4)"
    by simp
  have pct: "low_percentage tie_database None (sample_student 7)
      = 8092405580431359 / 281474976710656"
    unfolding low_percentage_def len pl by (rule raw_percentage_values)
  have ne: "low_records tie_database None (sample_student 7) \<noteq> []"
    using len by auto
  show "check_low_attendance_students tie_database (115 / 4) None
       = [(sample_student 7, 8092405580431359 / 281474976710656)]"
    by (simp add: check_low_attendance_students_filter tie_low_records(2,3) ne pct)
qed

end
